theory Spec2Isabelle
  imports Complex_Main "HOL-Library.AList" "HOL-Library.Sublist"
begin

section \<open>Values, exceptions and the object store\<close>

text \<open>
  The library moves decoded JSON around: the body of a response, the dict arguments of the
  mutating calls, the attributes of a resource object. A Python dict is an association
  list read through \<open>map_of\<close>; \<open>d.update({k: v})\<close> is \<open>AList.update k v d\<close>.
\<close>

datatype json =
    JNull
  | JBool bool
  | JInt int
  | JFloat real
  | JStr string
  | JList "json list"
  | JObj "(string \<times> json) list"

type_synonym fields = "(string \<times> json) list"

text \<open>Keyword arguments (\<open>**kwargs\<close>) are a dict from names to values.\<close>

type_synonym kwargs = "(string \<times> json) list"

text \<open>
  The errors of \<open>Requester.request\<close> (spec, section 6: authorization failure, transport
  failure, non-2xx status) and the exceptions the methods themselves can end in.
\<close>

datatype requester_error = Unauthorized | TransportError | BadStatus nat

datatype exn =
    RequiredFieldMissing string
  | AttributeError
  | TypeError
  | DecodeError
  | Requester requester_error

datatype http_verb = GET | POST | PUT | DELETE

text \<open>
  An endpoint is written in the source as a format string applied to values,
  \<open>'courses/%s/quizzes/%s' % (self.id, quiz_id)\<close>; the model keeps the format and its
  arguments. A next-page link is a complete URL.
\<close>

datatype endpoint = Fmt string "json list" | Url string

record http_request =
  verb :: http_verb
  path :: endpoint
  params :: kwargs

record response =
  json_body :: json
  next_link :: "string option"

datatype resource_type =
    Course | AppointmentGroup | User | Enrollment | Assignment | Quiz | Module
  | ExternalTool | Section | Page | CourseNickname

text \<open>
  A resource object: its class, the requester it was constructed with, and its attributes.
  Objects are mutable and have an identity, so they live in a store: a reference is an
  index into the list of all objects allocated so far.
\<close>

record canvas_object =
  element_class :: resource_type
  requester :: nat
  attributes :: fields

type_synonym ref = nat

text \<open>
  One exchange with the server: which requester sent what, and what came back.
\<close>

record exchange =
  sender :: nat
  sent :: http_request
  outcome :: "requester_error + response"

text \<open>
  The world a method runs in: the state of the remote server, the exchanges made
  so far (oldest first), and the object store.
\<close>

record 'w world =
  server :: 'w
  issued :: "exchange list"
  heap :: "canvas_object list"

text \<open>
  What the sources use and do not define: how the requester's transport answers a request
  (it may change the server), \<open>pycanvas.util.combine_kwargs\<close>,
  \<open>canvasapi.util.combine_kwargs\<close> and \<open>pycanvas.upload.Uploader(...).start()\<close>.
  They are parameters of the model.
\<close>

record 'w env =
  transport :: "'w \<Rightarrow> nat \<Rightarrow> http_request \<Rightarrow> (requester_error + response) \<times> 'w"
  combine_kwargs :: "kwargs \<Rightarrow> kwargs"
  combine_kwargs_pairs :: "kwargs \<Rightarrow> kwargs"
  uploader_start :: "nat \<Rightarrow> endpoint \<Rightarrow> json \<Rightarrow> kwargs \<Rightarrow> 'w world \<Rightarrow> (exn + bool \<times> json) \<times> 'w world"

subsection \<open>Python on JSON values\<close>

text \<open>\<open>isinstance(x, dict) and key in x\<close>\<close>

fun is_dict_with :: "string \<Rightarrow> json \<Rightarrow> bool" where
  "is_dict_with k (JObj d) = (map_of d k \<noteq> None)"
| "is_dict_with k _ = False"

text \<open>Truthiness, as \<open>if x:\<close> reads a value.\<close>

fun truthy :: "json \<Rightarrow> bool" where
  "truthy JNull = False"
| "truthy (JBool b) = b"
| "truthy (JInt n) = (n \<noteq> 0)"
| "truthy (JFloat x) = (x \<noteq> 0)"
| "truthy (JStr s) = (s \<noteq> [])"
| "truthy (JList xs) = (xs \<noteq> [])"
| "truthy (JObj d) = (d \<noteq> [])"

text \<open>
  \<open>x.get(key)\<close> and \<open>x.get(key, default)\<close>: only a dict has the method.
\<close>

fun dict_get :: "json \<Rightarrow> string \<Rightarrow> json \<Rightarrow> exn + json" where
  "dict_get (JObj d) k dflt = Inr (case map_of d k of None \<Rightarrow> dflt | Some v \<Rightarrow> v)"
| "dict_get _ k dflt = Inl AttributeError"

text \<open>
  \<open>key in x\<close> for a string key: a key of a dict, an element of a list, a substring of
  a string; the other values are not iterable.
\<close>

fun py_in :: "string \<Rightarrow> json \<Rightarrow> exn + bool" where
  "py_in k (JObj d) = Inr (map_of d k \<noteq> None)"
| "py_in k (JList xs) = Inr (JStr k \<in> set xs)"
| "py_in k (JStr s) = Inr (sublist k s)"
| "py_in k _ = Inl TypeError"

subsection \<open>CanvasObject\<close>

text \<open>
  Modelled from the spec: \<open>pycanvas.canvas_object.CanvasObject\<close> is not under src/.
  Section 3: the attributes of a resource object are projections of its backing map.
  Attribute access \<open>obj.name\<close> reads the map; an attribute that was never set raises
  \<open>AttributeError\<close>.
\<close>

definition getattr :: "canvas_object \<Rightarrow> string \<Rightarrow> exn + json" where
  "getattr obj k = (case map_of (attributes obj) k of None \<Rightarrow> Inl AttributeError | Some v \<Rightarrow> Inr v)"

text \<open>
  Modelled from the spec: \<open>CanvasObject.set_attributes\<close> is not under src/. Section 4.2:
  an object's attribute set is the decoded key set, with no validation, defaulting or
  coercion. Each field of the dict is assigned to the attribute of its name; an attribute
  the dict does not name keeps its value. A value that is no dict has no \<open>items()\<close>.
\<close>

definition assign_fields :: "canvas_object \<Rightarrow> fields \<Rightarrow> canvas_object" where
  "assign_fields obj d = obj\<lparr>attributes := AList.merge (attributes obj) d\<rparr>"

fun set_attributes :: "ref \<Rightarrow> json \<Rightarrow> 'w world \<Rightarrow> (exn + unit) \<times> 'w world" where
  "set_attributes self (JObj d) w =
     (Inr (), w\<lparr>heap := (heap w)[self := assign_fields (heap w ! self) d]\<rparr>)"
| "set_attributes self _ w = (Inl AttributeError, w)"

text \<open>
  Modelled from the spec: \<open>CanvasObject.__init__(requester, attributes)\<close> is not under
  src/. Section 6: \<open>construct(requester, field_map)\<close> gives an instance, infallible given a
  well-formed field map; section 3: instances are never deduplicated, every construction
  is a new object. A body that is no JSON object has no field map: the construction
  raises (the value has no \<open>items()\<close>).
\<close>

definition new_object :: "resource_type \<Rightarrow> nat \<Rightarrow> fields \<Rightarrow> 'w world \<Rightarrow> ref \<times> 'w world" where
  "new_object c rq d w =
     (length (heap w),
      w\<lparr>heap := heap w @ [\<lparr>element_class = c, requester = rq, attributes = d\<rparr>]\<rparr>)"

fun construct :: "resource_type \<Rightarrow> nat \<Rightarrow> json \<Rightarrow> 'w world \<Rightarrow> (exn + ref) \<times> 'w world" where
  "construct c rq (JObj d) w = (case new_object c rq d w of (r, w') \<Rightarrow> (Inr r, w'))"
| "construct c rq _ w = (Inl AttributeError, w)"

subsection \<open>Requester\<close>

text \<open>
  Modelled from the spec: \<open>Requester.request\<close> is not under src/. Section 6:
  \<open>request(method, path_or_url, params)\<close> gives a response, or one of the requester's
  errors. One call is one round trip; the exchange is appended to the record of
  exchanges, and the store is not touched.
\<close>

definition request :: "'w env \<Rightarrow> nat \<Rightarrow> http_request \<Rightarrow> 'w world \<Rightarrow> (exn + response) \<times> 'w world" where
  "request env rq r w =
     (case transport env (server w) rq r of
        (out, s') \<Rightarrow>
          (case out of Inl e \<Rightarrow> Inl (Requester e) | Inr resp \<Rightarrow> Inr resp,
           w\<lparr>server := s', issued := issued w @ [\<lparr>sender = rq, sent = r, outcome = out\<rparr>]\<rparr>))"

section \<open>Paginated Sequence: construction\<close>

text \<open>
  Modelled from the spec: \<open>pycanvas.paginated_list.PaginatedList\<close> is not under src/.
  Section 3: a sequence holds the element type, the shared requester, the current request
  or the terminal marker (\<open>None\<close>), and the buffered items not yet yielded; section 4.1:
  the optional extra context merged into every decoded item, and, for an envelope body,
  the key the sequence is told to expect.
\<close>

record paginated_list =
  element_type :: resource_type
  pl_requester :: nat
  current_request :: "http_request option"
  buffered_items :: "ref list"
  extra_context :: "fields option"
  expected_key :: "string option"

text \<open>
  Modelled from the spec: the constructor of \<open>PaginatedList\<close> is not under src/. Section
  4.1: \<open>Construct(element_type, requester, method, initial_path, extra_context,
  query_params)\<close> gives a new sequence positioned before its first element. No network
  call is made at construction time: the constructor does not see the world.
\<close>

definition Construct ::
  "resource_type \<Rightarrow> nat \<Rightarrow> http_verb \<Rightarrow> endpoint \<Rightarrow> fields option \<Rightarrow> kwargs \<Rightarrow> paginated_list" where
  "Construct c rq m p ctx kw =
     \<lparr>element_type = c, pl_requester = rq,
      current_request = Some \<lparr>verb = m, path = p, params = kw\<rparr>,
      buffered_items = [], extra_context = ctx, expected_key = None\<rparr>"

text \<open>
  Modelled from the spec: section 6, an envelope body is keyed by a name the sequence is
  told to expect. None of the methods of \<open>Course\<close> tells its sequence one.
\<close>

definition expecting :: "string \<Rightarrow> paginated_list \<Rightarrow> paginated_list" where
  "expecting k pl = pl\<lparr>expected_key := Some k\<rparr>"

section \<open>pycanvas.course.Course\<close>

text \<open>
  Every method takes the parameters \<open>env\<close>, the receiver \<open>self\<close> (a reference), its
  arguments and the world, and returns its result (\<open>Inl\<close> the exception raised) with the
  world it leaves. \<open>self.id\<close> is an attribute read and raises when the receiver has no
  \<open>id\<close>.
\<close>

text \<open>
  The three lines that end every method injecting the parent course:
  \<open>x_json = response.json(); x_json.update({'course_id': self.id});
  return X(self._requester, x_json)\<close>. The method \<open>update\<close> is looked up before its
  argument is evaluated.
\<close>

definition construct_with_course_id ::
  "resource_type \<Rightarrow> ref \<Rightarrow> json \<Rightarrow> 'w world \<Rightarrow> (exn + ref) \<times> 'w world" where
  "construct_with_course_id c self body w =
     (case body of
        JObj d \<Rightarrow>
          (case getattr (heap w ! self) ''id'' of
             Inl e \<Rightarrow> (Inl e, w)
           | Inr i \<Rightarrow>
               construct c (requester (heap w ! self)) (JObj (AList.update ''course_id'' i d)) w)
      | _ \<Rightarrow> (Inl AttributeError, w))"

definition Course_conclude :: "'w env \<Rightarrow> ref \<Rightarrow> 'w world \<Rightarrow> (exn + json) \<times> 'w world" where
  "Course_conclude env self w =
     (case getattr (heap w ! self) ''id'' of
        Inl e \<Rightarrow> (Inl e, w)
      | Inr i \<Rightarrow>
          (case request env (requester (heap w ! self))
                  \<lparr>verb = DELETE, path = Fmt ''courses/%s'' [i],
                   params = [(''event'', JStr ''conclude''), (''var'', JStr ''blarg'')]\<rparr> w of
             (Inl e, w') \<Rightarrow> (Inl e, w')
           | (Inr resp, w') \<Rightarrow> (dict_get (json_body resp) ''conclude'' JNull, w')))"

definition Course_delete :: "'w env \<Rightarrow> ref \<Rightarrow> 'w world \<Rightarrow> (exn + json) \<times> 'w world" where
  "Course_delete env self w =
     (case getattr (heap w ! self) ''id'' of
        Inl e \<Rightarrow> (Inl e, w)
      | Inr i \<Rightarrow>
          (case request env (requester (heap w ! self))
                  \<lparr>verb = DELETE, path = Fmt ''courses/%s'' [i],
                   params = [(''event'', JStr ''delete'')]\<rparr> w of
             (Inl e, w') \<Rightarrow> (Inl e, w')
           | (Inr resp, w') \<Rightarrow> (dict_get (json_body resp) ''delete'' JNull, w')))"

text \<open>
  \<open>update\<close> reads \<open>response.json().get('name')\<close> twice: once as the condition of the
  assignment to the receiver, once as the value returned.
\<close>

definition Course_update :: "'w env \<Rightarrow> ref \<Rightarrow> kwargs \<Rightarrow> 'w world \<Rightarrow> (exn + json) \<times> 'w world" where
  "Course_update env self kwargs w =
     (case getattr (heap w ! self) ''id'' of
        Inl e \<Rightarrow> (Inl e, w)
      | Inr i \<Rightarrow>
          (case request env (requester (heap w ! self))
                  \<lparr>verb = PUT, path = Fmt ''courses/%s'' [i],
                   params = combine_kwargs env kwargs\<rparr> w of
             (Inl e, w') \<Rightarrow> (Inl e, w')
           | (Inr resp, w') \<Rightarrow>
               (case dict_get (json_body resp) ''name'' JNull of
                  Inl e \<Rightarrow> (Inl e, w')
                | Inr c \<Rightarrow>
                    if truthy c then
                      (case set_attributes self (json_body resp) w' of
                         (Inl e, w'') \<Rightarrow> (Inl e, w'')
                       | (Inr _, w'') \<Rightarrow> (dict_get (json_body resp) ''name'' JNull, w''))
                    else (dict_get (json_body resp) ''name'' JNull, w'))))"

definition Course_get_user ::
  "'w env \<Rightarrow> ref \<Rightarrow> json \<Rightarrow> json \<Rightarrow> 'w world \<Rightarrow> (exn + ref) \<times> 'w world" where
  "Course_get_user env self user_id user_id_type w =
     (case getattr (heap w ! self) ''id'' of
        Inl e \<Rightarrow> (Inl e, w)
      | Inr i \<Rightarrow>
          (let uri = (if truthy user_id_type
                      then Fmt ''courses/%s/users/%s:%s'' [i, user_id_type, user_id]
                      else Fmt ''courses/%s/users/%s'' [i, user_id])
           in case request env (requester (heap w ! self))
                  \<lparr>verb = GET, path = uri, params = []\<rparr> w of
             (Inl e, w') \<Rightarrow> (Inl e, w')
           | (Inr resp, w') \<Rightarrow> construct User (requester (heap w' ! self)) (json_body resp) w'))"

text \<open>\<open>get_users\<close> never uses its \<open>search_term\<close>.\<close>

definition Course_get_users ::
  "'w env \<Rightarrow> ref \<Rightarrow> json \<Rightarrow> kwargs \<Rightarrow> 'w world \<Rightarrow> (exn + paginated_list) \<times> 'w world" where
  "Course_get_users env self search_term kwargs w =
     (case getattr (heap w ! self) ''id'' of
        Inl e \<Rightarrow> (Inl e, w)
      | Inr i \<Rightarrow>
          (Inr (Construct User (requester (heap w ! self)) GET
                  (Fmt ''courses/%s/search_users'' [i]) None (combine_kwargs env kwargs)), w))"

definition Course_enroll_user ::
  "'w env \<Rightarrow> ref \<Rightarrow> ref \<Rightarrow> json \<Rightarrow> kwargs \<Rightarrow> 'w world \<Rightarrow> (exn + ref) \<times> 'w world" where
  "Course_enroll_user env self user enrollment_type kwargs w =
     (case getattr (heap w ! user) ''id'' of
        Inl e \<Rightarrow> (Inl e, w)
      | Inr uid \<Rightarrow>
          (let kwargs' = AList.update ''enrollment[type]'' enrollment_type
                           (AList.update ''enrollment[user_id]'' uid kwargs)
           in case getattr (heap w ! self) ''id'' of
                Inl e \<Rightarrow> (Inl e, w)
              | Inr i \<Rightarrow>
                  (case request env (requester (heap w ! self))
                          \<lparr>verb = POST, path = Fmt ''courses/%s/enrollments'' [i],
                           params = combine_kwargs env kwargs'\<rparr> w of
                     (Inl e, w') \<Rightarrow> (Inl e, w')
                   | (Inr resp, w') \<Rightarrow>
                       construct Enrollment (requester (heap w' ! self)) (json_body resp) w')))"

definition Course_get_recent_students ::
  "'w env \<Rightarrow> ref \<Rightarrow> 'w world \<Rightarrow> (exn + paginated_list) \<times> 'w world" where
  "Course_get_recent_students env self w =
     (case getattr (heap w ! self) ''id'' of
        Inl e \<Rightarrow> (Inl e, w)
      | Inr i \<Rightarrow>
          (Inr (Construct User (requester (heap w ! self)) GET
                  (Fmt ''courses/%s/recent_students'' [i]) None []), w))"

definition Course_preview_html :: "'w env \<Rightarrow> ref \<Rightarrow> json \<Rightarrow> 'w world \<Rightarrow> (exn + json) \<times> 'w world" where
  "Course_preview_html env self html w =
     (case getattr (heap w ! self) ''id'' of
        Inl e \<Rightarrow> (Inl e, w)
      | Inr i \<Rightarrow>
          (case request env (requester (heap w ! self))
                  \<lparr>verb = POST, path = Fmt ''courses/%s/preview_html'' [i],
                   params = [(''html'', html)]\<rparr> w of
             (Inl e, w') \<Rightarrow> (Inl e, w')
           | (Inr resp, w') \<Rightarrow> (dict_get (json_body resp) ''html'' (JStr []), w')))"

definition Course_get_settings :: "'w env \<Rightarrow> ref \<Rightarrow> 'w world \<Rightarrow> (exn + json) \<times> 'w world" where
  "Course_get_settings env self w =
     (case getattr (heap w ! self) ''id'' of
        Inl e \<Rightarrow> (Inl e, w)
      | Inr i \<Rightarrow>
          (case request env (requester (heap w ! self))
                  \<lparr>verb = GET, path = Fmt ''courses/%s/settings'' [i], params = []\<rparr> w of
             (Inl e, w') \<Rightarrow> (Inl e, w')
           | (Inr resp, w') \<Rightarrow> (Inr (json_body resp), w')))"

text \<open>\<open>update_settings\<close> passes its keyword arguments on as they are.\<close>

definition Course_update_settings ::
  "'w env \<Rightarrow> ref \<Rightarrow> kwargs \<Rightarrow> 'w world \<Rightarrow> (exn + json) \<times> 'w world" where
  "Course_update_settings env self kwargs w =
     (case getattr (heap w ! self) ''id'' of
        Inl e \<Rightarrow> (Inl e, w)
      | Inr i \<Rightarrow>
          (case request env (requester (heap w ! self))
                  \<lparr>verb = PUT, path = Fmt ''courses/%s/settings'' [i], params = kwargs\<rparr> w of
             (Inl e, w') \<Rightarrow> (Inl e, w')
           | (Inr resp, w') \<Rightarrow> (Inr (json_body resp), w')))"

text \<open>
  \<open>upload\<close> makes no request of its own: it hands the requester to an \<open>Uploader\<close> and
  returns what its \<open>start()\<close> returns.
\<close>

definition Course_upload ::
  "'w env \<Rightarrow> ref \<Rightarrow> json \<Rightarrow> kwargs \<Rightarrow> 'w world \<Rightarrow> (exn + bool \<times> json) \<times> 'w world" where
  "Course_upload env self file kwargs w =
     (case getattr (heap w ! self) ''id'' of
        Inl e \<Rightarrow> (Inl e, w)
      | Inr i \<Rightarrow>
          uploader_start env (requester (heap w ! self)) (Fmt ''courses/%s/files'' [i]) file kwargs w)"

definition Course_reset :: "'w env \<Rightarrow> ref \<Rightarrow> 'w world \<Rightarrow> (exn + ref) \<times> 'w world" where
  "Course_reset env self w =
     (case getattr (heap w ! self) ''id'' of
        Inl e \<Rightarrow> (Inl e, w)
      | Inr i \<Rightarrow>
          (case request env (requester (heap w ! self))
                  \<lparr>verb = POST, path = Fmt ''courses/%s/reset_content'' [i], params = []\<rparr> w of
             (Inl e, w') \<Rightarrow> (Inl e, w')
           | (Inr resp, w') \<Rightarrow> construct Course (requester (heap w' ! self)) (json_body resp) w'))"

definition Course_get_enrollments ::
  "'w env \<Rightarrow> ref \<Rightarrow> kwargs \<Rightarrow> 'w world \<Rightarrow> (exn + paginated_list) \<times> 'w world" where
  "Course_get_enrollments env self kwargs w =
     (case getattr (heap w ! self) ''id'' of
        Inl e \<Rightarrow> (Inl e, w)
      | Inr i \<Rightarrow>
          (Inr (Construct Enrollment (requester (heap w ! self)) GET
                  (Fmt ''courses/%s/enrollments'' [i]) None (combine_kwargs env kwargs)), w))"

definition Course_get_assignment ::
  "'w env \<Rightarrow> ref \<Rightarrow> json \<Rightarrow> kwargs \<Rightarrow> 'w world \<Rightarrow> (exn + ref) \<times> 'w world" where
  "Course_get_assignment env self assignment_id kwargs w =
     (case getattr (heap w ! self) ''id'' of
        Inl e \<Rightarrow> (Inl e, w)
      | Inr i \<Rightarrow>
          (case request env (requester (heap w ! self))
                  \<lparr>verb = GET, path = Fmt ''courses/%s/assignments/%s'' [i, assignment_id],
                   params = combine_kwargs env kwargs\<rparr> w of
             (Inl e, w') \<Rightarrow> (Inl e, w')
           | (Inr resp, w') \<Rightarrow>
               construct Assignment (requester (heap w' ! self)) (json_body resp) w'))"

definition Course_get_assignments ::
  "'w env \<Rightarrow> ref \<Rightarrow> kwargs \<Rightarrow> 'w world \<Rightarrow> (exn + paginated_list) \<times> 'w world" where
  "Course_get_assignments env self kwargs w =
     (case getattr (heap w ! self) ''id'' of
        Inl e \<Rightarrow> (Inl e, w)
      | Inr i \<Rightarrow>
          (Inr (Construct Assignment (requester (heap w ! self)) GET
                  (Fmt ''courses/%s/assignments'' [i]) None (combine_kwargs env kwargs)), w))"

definition Course_create_assignment ::
  "'w env \<Rightarrow> ref \<Rightarrow> json \<Rightarrow> kwargs \<Rightarrow> 'w world \<Rightarrow> (exn + ref) \<times> 'w world" where
  "Course_create_assignment env self assignment kwargs w =
     (if is_dict_with ''name'' assignment then
        (let kwargs' = AList.update ''assignment'' assignment kwargs
         in case getattr (heap w ! self) ''id'' of
              Inl e \<Rightarrow> (Inl e, w)
            | Inr i \<Rightarrow>
                (case request env (requester (heap w ! self))
                        \<lparr>verb = POST, path = Fmt ''courses/%s/assignments'' [i],
                         params = combine_kwargs env kwargs'\<rparr> w of
                   (Inl e, w') \<Rightarrow> (Inl e, w')
                 | (Inr resp, w') \<Rightarrow>
                     construct Assignment (requester (heap w' ! self)) (json_body resp) w'))
      else (Inl (RequiredFieldMissing ''Dictionary with key 'name' is required.''), w))"

definition Course_get_quizzes ::
  "'w env \<Rightarrow> ref \<Rightarrow> kwargs \<Rightarrow> 'w world \<Rightarrow> (exn + paginated_list) \<times> 'w world" where
  "Course_get_quizzes env self kwargs w =
     (case getattr (heap w ! self) ''id'' of
        Inl e \<Rightarrow> (Inl e, w)
      | Inr i \<Rightarrow>
          (Inr (Construct Quiz (requester (heap w ! self)) GET
                  (Fmt ''courses/%s/quizzes'' [i]) (Some [(''course_id'', i)])
                  (combine_kwargs env kwargs)), w))"

definition Course_get_quiz :: "'w env \<Rightarrow> ref \<Rightarrow> json \<Rightarrow> 'w world \<Rightarrow> (exn + ref) \<times> 'w world" where
  "Course_get_quiz env self quiz_id w =
     (case getattr (heap w ! self) ''id'' of
        Inl e \<Rightarrow> (Inl e, w)
      | Inr i \<Rightarrow>
          (case request env (requester (heap w ! self))
                  \<lparr>verb = GET, path = Fmt ''courses/%s/quizzes/%s'' [i, quiz_id], params = []\<rparr> w of
             (Inl e, w') \<Rightarrow> (Inl e, w')
           | (Inr resp, w') \<Rightarrow> construct_with_course_id Quiz self (json_body resp) w'))"

definition Course_create_quiz ::
  "'w env \<Rightarrow> ref \<Rightarrow> json \<Rightarrow> kwargs \<Rightarrow> 'w world \<Rightarrow> (exn + ref) \<times> 'w world" where
  "Course_create_quiz env self quiz kwargs w =
     (if is_dict_with ''title'' quiz then
        (let kwargs' = AList.update ''quiz'' quiz kwargs
         in case getattr (heap w ! self) ''id'' of
              Inl e \<Rightarrow> (Inl e, w)
            | Inr i \<Rightarrow>
                (case request env (requester (heap w ! self))
                        \<lparr>verb = POST, path = Fmt ''courses/%s/quizzes'' [i],
                         params = combine_kwargs env kwargs'\<rparr> w of
                   (Inl e, w') \<Rightarrow> (Inl e, w')
                 | (Inr resp, w') \<Rightarrow> construct_with_course_id Quiz self (json_body resp) w'))
      else (Inl (RequiredFieldMissing ''Dictionary with key 'title' is required.''), w))"

definition Course_get_modules ::
  "'w env \<Rightarrow> ref \<Rightarrow> kwargs \<Rightarrow> 'w world \<Rightarrow> (exn + paginated_list) \<times> 'w world" where
  "Course_get_modules env self kwargs w =
     (case getattr (heap w ! self) ''id'' of
        Inl e \<Rightarrow> (Inl e, w)
      | Inr i \<Rightarrow>
          (Inr (Construct Module (requester (heap w ! self)) GET
                  (Fmt ''courses/%s/modules'' [i]) (Some [(''course_id'', i)])
                  (combine_kwargs env kwargs)), w))"

text \<open>\<open>get_module\<close> accepts keyword arguments and never uses them.\<close>

definition Course_get_module ::
  "'w env \<Rightarrow> ref \<Rightarrow> json \<Rightarrow> kwargs \<Rightarrow> 'w world \<Rightarrow> (exn + ref) \<times> 'w world" where
  "Course_get_module env self module_id kwargs w =
     (case getattr (heap w ! self) ''id'' of
        Inl e \<Rightarrow> (Inl e, w)
      | Inr i \<Rightarrow>
          (case request env (requester (heap w ! self))
                  \<lparr>verb = GET, path = Fmt ''courses/%s/modules/%s'' [i, module_id], params = []\<rparr> w of
             (Inl e, w') \<Rightarrow> (Inl e, w')
           | (Inr resp, w') \<Rightarrow> construct_with_course_id Module self (json_body resp) w'))"

definition Course_create_module ::
  "'w env \<Rightarrow> ref \<Rightarrow> json \<Rightarrow> kwargs \<Rightarrow> 'w world \<Rightarrow> (exn + ref) \<times> 'w world" where
  "Course_create_module env self module' kwargs w =
     (if is_dict_with ''name'' module' then
        (let kwargs' = AList.update ''module'' module' kwargs
         in case getattr (heap w ! self) ''id'' of
              Inl e \<Rightarrow> (Inl e, w)
            | Inr i \<Rightarrow>
                (case request env (requester (heap w ! self))
                        \<lparr>verb = POST, path = Fmt ''courses/%s/modules'' [i],
                         params = combine_kwargs env kwargs'\<rparr> w of
                   (Inl e, w') \<Rightarrow> (Inl e, w')
                 | (Inr resp, w') \<Rightarrow> construct_with_course_id Module self (json_body resp) w'))
      else (Inl (RequiredFieldMissing ''Dictionary with key 'name' is required.''), w))"

definition Course_get_external_tool ::
  "'w env \<Rightarrow> ref \<Rightarrow> json \<Rightarrow> 'w world \<Rightarrow> (exn + ref) \<times> 'w world" where
  "Course_get_external_tool env self tool_id w =
     (case getattr (heap w ! self) ''id'' of
        Inl e \<Rightarrow> (Inl e, w)
      | Inr i \<Rightarrow>
          (case request env (requester (heap w ! self))
                  \<lparr>verb = GET, path = Fmt ''courses/%s/external_tools/%s'' [i, tool_id],
                   params = []\<rparr> w of
             (Inl e, w') \<Rightarrow> (Inl e, w')
           | (Inr resp, w') \<Rightarrow> construct_with_course_id ExternalTool self (json_body resp) w'))"

definition Course_get_external_tools ::
  "'w env \<Rightarrow> ref \<Rightarrow> kwargs \<Rightarrow> 'w world \<Rightarrow> (exn + paginated_list) \<times> 'w world" where
  "Course_get_external_tools env self kwargs w =
     (case getattr (heap w ! self) ''id'' of
        Inl e \<Rightarrow> (Inl e, w)
      | Inr i \<Rightarrow>
          (Inr (Construct ExternalTool (requester (heap w ! self)) GET
                  (Fmt ''courses/%s/external_tools'' [i]) (Some [(''course_id'', i)])
                  (combine_kwargs env kwargs)), w))"

definition Course_get_section ::
  "'w env \<Rightarrow> ref \<Rightarrow> json \<Rightarrow> 'w world \<Rightarrow> (exn + ref) \<times> 'w world" where
  "Course_get_section env self section_id w =
     (case getattr (heap w ! self) ''id'' of
        Inl e \<Rightarrow> (Inl e, w)
      | Inr i \<Rightarrow>
          (case request env (requester (heap w ! self))
                  \<lparr>verb = GET, path = Fmt ''courses/%s/sections/%s'' [i, section_id],
                   params = []\<rparr> w of
             (Inl e, w') \<Rightarrow> (Inl e, w')
           | (Inr resp, w') \<Rightarrow> construct Section (requester (heap w' ! self)) (json_body resp) w'))"

definition Course_show_front_page :: "'w env \<Rightarrow> ref \<Rightarrow> 'w world \<Rightarrow> (exn + ref) \<times> 'w world" where
  "Course_show_front_page env self w =
     (case getattr (heap w ! self) ''id'' of
        Inl e \<Rightarrow> (Inl e, w)
      | Inr i \<Rightarrow>
          (case request env (requester (heap w ! self))
                  \<lparr>verb = GET, path = Fmt ''courses/%s/front_page'' [i], params = []\<rparr> w of
             (Inl e, w') \<Rightarrow> (Inl e, w')
           | (Inr resp, w') \<Rightarrow> construct_with_course_id Page self (json_body resp) w'))"

definition Course_edit_front_page ::
  "'w env \<Rightarrow> ref \<Rightarrow> kwargs \<Rightarrow> 'w world \<Rightarrow> (exn + ref) \<times> 'w world" where
  "Course_edit_front_page env self kwargs w =
     (case getattr (heap w ! self) ''id'' of
        Inl e \<Rightarrow> (Inl e, w)
      | Inr i \<Rightarrow>
          (case request env (requester (heap w ! self))
                  \<lparr>verb = PUT, path = Fmt ''courses/%s/front_page'' [i],
                   params = combine_kwargs env kwargs\<rparr> w of
             (Inl e, w') \<Rightarrow> (Inl e, w')
           | (Inr resp, w') \<Rightarrow> construct_with_course_id Page self (json_body resp) w'))"

text \<open>\<open>get_pages\<close> accepts keyword arguments and never passes them on.\<close>

definition Course_get_pages ::
  "'w env \<Rightarrow> ref \<Rightarrow> kwargs \<Rightarrow> 'w world \<Rightarrow> (exn + paginated_list) \<times> 'w world" where
  "Course_get_pages env self kwargs w =
     (case getattr (heap w ! self) ''id'' of
        Inl e \<Rightarrow> (Inl e, w)
      | Inr i \<Rightarrow>
          (Inr (Construct Page (requester (heap w ! self)) GET
                  (Fmt ''courses/%s/pages'' [i]) (Some [(''course_id'', i)]) []), w))"

definition Course_create_page ::
  "'w env \<Rightarrow> ref \<Rightarrow> json \<Rightarrow> kwargs \<Rightarrow> 'w world \<Rightarrow> (exn + ref) \<times> 'w world" where
  "Course_create_page env self wiki_page kwargs w =
     (if is_dict_with ''title'' wiki_page then
        (let kwargs' = AList.update ''wiki_page'' wiki_page kwargs
         in case getattr (heap w ! self) ''id'' of
              Inl e \<Rightarrow> (Inl e, w)
            | Inr i \<Rightarrow>
                (case request env (requester (heap w ! self))
                        \<lparr>verb = POST, path = Fmt ''courses/%s/pages'' [i],
                         params = combine_kwargs env kwargs'\<rparr> w of
                   (Inl e, w') \<Rightarrow> (Inl e, w')
                 | (Inr resp, w') \<Rightarrow> construct_with_course_id Page self (json_body resp) w'))
      else (Inl (RequiredFieldMissing ''Dictionary with key 'title' is required.''), w))"

definition Course_get_page :: "'w env \<Rightarrow> ref \<Rightarrow> json \<Rightarrow> 'w world \<Rightarrow> (exn + ref) \<times> 'w world" where
  "Course_get_page env self url w =
     (case getattr (heap w ! self) ''id'' of
        Inl e \<Rightarrow> (Inl e, w)
      | Inr i \<Rightarrow>
          (case request env (requester (heap w ! self))
                  \<lparr>verb = GET, path = Fmt ''courses/%s/pages/%s'' [i, url], params = []\<rparr> w of
             (Inl e, w') \<Rightarrow> (Inl e, w')
           | (Inr resp, w') \<Rightarrow> construct_with_course_id Page self (json_body resp) w'))"

definition Course_list_sections ::
  "'w env \<Rightarrow> ref \<Rightarrow> kwargs \<Rightarrow> 'w world \<Rightarrow> (exn + paginated_list) \<times> 'w world" where
  "Course_list_sections env self kwargs w =
     (case getattr (heap w ! self) ''id'' of
        Inl e \<Rightarrow> (Inl e, w)
      | Inr i \<Rightarrow>
          (Inr (Construct Section (requester (heap w ! self)) GET
                  (Fmt ''courses/%s/sections'' [i]) None (combine_kwargs env kwargs)), w))"

definition Course_create_course_section ::
  "'w env \<Rightarrow> ref \<Rightarrow> kwargs \<Rightarrow> 'w world \<Rightarrow> (exn + ref) \<times> 'w world" where
  "Course_create_course_section env self kwargs w =
     (case getattr (heap w ! self) ''id'' of
        Inl e \<Rightarrow> (Inl e, w)
      | Inr i \<Rightarrow>
          (case request env (requester (heap w ! self))
                  \<lparr>verb = POST, path = Fmt ''courses/%s/sections'' [i],
                   params = combine_kwargs env kwargs\<rparr> w of
             (Inl e, w') \<Rightarrow> (Inl e, w')
           | (Inr resp, w') \<Rightarrow> construct Section (requester (heap w' ! self)) (json_body resp) w'))"

section \<open>pycanvas.course.CourseNickname\<close>

definition CourseNickname_remove :: "'w env \<Rightarrow> ref \<Rightarrow> 'w world \<Rightarrow> (exn + ref) \<times> 'w world" where
  "CourseNickname_remove env self w =
     (case getattr (heap w ! self) ''course_id'' of
        Inl e \<Rightarrow> (Inl e, w)
      | Inr i \<Rightarrow>
          (case request env (requester (heap w ! self))
                  \<lparr>verb = DELETE, path = Fmt ''users/self/course_nicknames/%s'' [i],
                   params = []\<rparr> w of
             (Inl e, w') \<Rightarrow> (Inl e, w')
           | (Inr resp, w') \<Rightarrow>
               construct CourseNickname (requester (heap w' ! self)) (json_body resp) w'))"

section \<open>canvasapi.appointment_group.AppointmentGroup\<close>

text \<open>
  Here the combined keyword arguments are passed to the requester under the one keyword
  \<open>_kwargs\<close>.
\<close>

definition AppointmentGroup_delete ::
  "'w env \<Rightarrow> ref \<Rightarrow> kwargs \<Rightarrow> 'w world \<Rightarrow> (exn + ref) \<times> 'w world" where
  "AppointmentGroup_delete env self kwargs w =
     (case getattr (heap w ! self) ''id'' of
        Inl e \<Rightarrow> (Inl e, w)
      | Inr i \<Rightarrow>
          (case request env (requester (heap w ! self))
                  \<lparr>verb = DELETE, path = Fmt ''appointment_groups/%s'' [i],
                   params = [(''_kwargs'', JObj (combine_kwargs_pairs env kwargs))]\<rparr> w of
             (Inl e, w') \<Rightarrow> (Inl e, w')
           | (Inr resp, w') \<Rightarrow>
               construct AppointmentGroup (requester (heap w' ! self)) (json_body resp) w'))"

definition AppointmentGroup_edit ::
  "'w env \<Rightarrow> ref \<Rightarrow> json \<Rightarrow> kwargs \<Rightarrow> 'w world \<Rightarrow> (exn + ref) \<times> 'w world" where
  "AppointmentGroup_edit env self appointment_group kwargs w =
     (if is_dict_with ''context_codes'' appointment_group then
        (let kwargs' = AList.update ''appointment_group'' appointment_group kwargs
         in case getattr (heap w ! self) ''id'' of
              Inl e \<Rightarrow> (Inl e, w)
            | Inr i \<Rightarrow>
                (case request env (requester (heap w ! self))
                        \<lparr>verb = PUT, path = Fmt ''appointment_groups/%s'' [i],
                         params = [(''_kwargs'', JObj (combine_kwargs_pairs env kwargs'))]\<rparr> w of
                   (Inl e, w') \<Rightarrow> (Inl e, w')
                 | (Inr resp, w') \<Rightarrow>
                     (case py_in ''title'' (json_body resp) of
                        Inl e \<Rightarrow> (Inl e, w')
                      | Inr has_title \<Rightarrow>
                          if has_title then
                            (case set_attributes self (json_body resp) w' of
                               (Inl e, w'') \<Rightarrow> (Inl e, w'')
                             | (Inr _, w'') \<Rightarrow>
                                 construct AppointmentGroup (requester (heap w'' ! self))
                                   (json_body resp) w'')
                          else construct AppointmentGroup (requester (heap w' ! self))
                                 (json_body resp) w')))
      else (Inl (RequiredFieldMissing ''Dictionary with key 'context_codes' is required.''), w))"

section \<open>Paginated Sequence: advancing and draining\<close>

text \<open>
  Modelled from the spec: the page handling of \<open>PaginatedList\<close> is not under src/.
  Section 4.1, step 2: the body of a page is an array of objects,
  or an envelope \<open>{key: [...]}\<close> under the key the sequence expects; any other shape is a
  decode error.
\<close>

fun as_object :: "json \<Rightarrow> fields option" where
  "as_object (JObj d) = Some d"
| "as_object _ = None"

definition decode_items :: "json list \<Rightarrow> exn + fields list" where
  "decode_items xs =
     (if list_all (\<lambda>x. as_object x \<noteq> None) xs then Inr (map (\<lambda>x. the (as_object x)) xs)
      else Inl DecodeError)"

fun decode_page :: "string option \<Rightarrow> json \<Rightarrow> exn + fields list" where
  "decode_page key (JList xs) = decode_items xs"
| "decode_page (Some k) (JObj d) =
     (case map_of d k of Some (JList xs) \<Rightarrow> decode_items xs | _ \<Rightarrow> Inl DecodeError)"
| "decode_page key _ = Inl DecodeError"

text \<open>
  Modelled from the spec: section 4.1, step 3 (and section 8: the extra context
  overrides). The extra context, if any, is merged into the decoded item, its values
  overriding the item's, and an object of the element type is constructed on the
  sequence's requester.
\<close>

fun merge_context :: "fields option \<Rightarrow> fields \<Rightarrow> fields" where
  "merge_context None d = d"
| "merge_context (Some ctx) d = AList.merge d ctx"

fun construct_all :: "resource_type \<Rightarrow> nat \<Rightarrow> fields list \<Rightarrow> 'w world \<Rightarrow> ref list \<times> 'w world" where
  "construct_all c rq [] w = ([], w)"
| "construct_all c rq (d # ds) w =
     (case new_object c rq d w of
        (r, w') \<Rightarrow> (case construct_all c rq ds w' of (rs, w'') \<Rightarrow> (r # rs, w'')))"

text \<open>
  Modelled from the spec: section 4.1, step 4. A next link becomes the current request,
  a GET of that URL with no parameters of the original request; no next link is the
  terminal marker.
\<close>

definition next_request :: "string option \<Rightarrow> http_request option" where
  "next_request l = map_option (\<lambda>u. \<lparr>verb = GET, path = Url u, params = []\<rparr>) l"

text \<open>
  Modelled from the spec: section 4.1, algorithm and failure semantics. One page is one
  round trip for the current request \<open>r\<close>, then steps 2 to 5. An error of the requester
  or of the decoding leaves the sequence as it was, so that the same request is pending
  for a retry.
\<close>

definition fetch_page ::
  "'w env \<Rightarrow> paginated_list \<Rightarrow> http_request \<Rightarrow> 'w world \<Rightarrow> (exn + paginated_list) \<times> 'w world" where
  "fetch_page env pl r w =
     (case request env (pl_requester pl) r w of
        (Inl e, w') \<Rightarrow> (Inl e, w')
      | (Inr resp, w') \<Rightarrow>
          (case decode_page (expected_key pl) (json_body resp) of
             Inl e \<Rightarrow> (Inl e, w')
           | Inr items \<Rightarrow>
               (case construct_all (element_type pl) (pl_requester pl)
                       (map (merge_context (extra_context pl)) items) w' of
                  (rs, w'') \<Rightarrow>
                    (Inr (pl\<lparr>current_request := next_request (next_link resp),
                             buffered_items := buffered_items pl @ rs\<rparr>), w''))))"

text \<open>
  Modelled from the spec: section 4.1, \<open>Advance()\<close>. The next buffered element with no
  I/O; with an empty buffer and a pending request, one round trip to refill the buffer;
  with an empty buffer and no further page, end of sequence (\<open>Inr None\<close>). The spec names
  these two results only, so after a page that brought no item and a next link the call
  goes on to the next page, as section 8 requires of a collection with an empty page in
  its middle. A server that keeps sending empty pages with a next link keeps the call
  from returning: that is the value \<open>None\<close> of the whole call.
\<close>

partial_function (option) Advance ::
  "'w env \<Rightarrow> paginated_list \<Rightarrow> 'w world \<Rightarrow> ((exn + ref option) \<times> paginated_list \<times> 'w world) option" where
  "Advance env pl w =
     (case buffered_items pl of
        x # xs \<Rightarrow> Some (Inr (Some x), pl\<lparr>buffered_items := xs\<rparr>, w)
      | [] \<Rightarrow>
          (case current_request pl of
             None \<Rightarrow> Some (Inr None, pl, w)
           | Some r \<Rightarrow>
               (case fetch_page env pl r w of
                  (Inl e, w') \<Rightarrow> Some (Inl e, pl, w')
                | (Inr pl', w') \<Rightarrow> Advance env pl' w')))"

text \<open>
  Modelled from the spec: section 4.1, \<open>ToFiniteCollection()\<close>. Advance until the end of
  the sequence, collecting the elements in the order they are yielded; an error of
  \<open>Advance()\<close> ends the drain.
\<close>

partial_function (option) drain ::
  "'w env \<Rightarrow> paginated_list \<Rightarrow> 'w world \<Rightarrow> ref list \<Rightarrow> ((exn + ref list) \<times> paginated_list \<times> 'w world) option" where
  "drain env pl w acc =
     (case Advance env pl w of
        None \<Rightarrow> None
      | Some (Inl e, pl', w') \<Rightarrow> Some (Inl e, pl', w')
      | Some (Inr None, pl', w') \<Rightarrow> Some (Inr acc, pl', w')
      | Some (Inr (Some x), pl', w') \<Rightarrow> drain env pl' w' (acc @ [x]))"

definition ToFiniteCollection ::
  "'w env \<Rightarrow> paginated_list \<Rightarrow> 'w world \<Rightarrow> ((exn + ref list) \<times> paginated_list \<times> 'w world) option" where
  "ToFiniteCollection env pl w = drain env pl w []"

text \<open>
  Modelled from the spec: section 3, a sequence is terminal once a page has arrived with
  no next link and the buffer is drained: nothing buffered and no page left to ask for.
\<close>

definition terminal :: "paginated_list \<Rightarrow> bool" where
  "terminal pl = (buffered_items pl = [] \<and> current_request pl = None)"

text \<open>\<open>n\<close> calls of \<open>Advance()\<close> in a row, with what each returned.\<close>

fun advance_times ::
  "nat \<Rightarrow> 'w env \<Rightarrow> paginated_list \<Rightarrow> 'w world \<Rightarrow>
     ((exn + ref option) list \<times> paginated_list \<times> 'w world) option" where
  "advance_times 0 env pl w = Some ([], pl, w)"
| "advance_times (Suc n) env pl w =
     (case Advance env pl w of
        None \<Rightarrow> None
      | Some (res, pl', w') \<Rightarrow>
          (case advance_times n env pl' w' of
             None \<Rightarrow> None
           | Some (rs, pl'', w'') \<Rightarrow> Some (res # rs, pl'', w'')))"

section \<open>Properties to state\<close>

text \<open>
  A server holds a collection as the pages \<open>p1, ..., pN\<close> when, asked the request \<open>r\<close>, it
  answers with the array \<open>p1\<close> and a next link, asked that link with \<open>p2\<close> and a next link,
  and so on, the last page \<open>pN\<close> coming with no next link.
\<close>

fun serves :: "'w env \<Rightarrow> nat \<Rightarrow> 'w \<Rightarrow> http_request \<Rightarrow> json list list \<Rightarrow> bool" where
  "serves env rq s r [] = False"
| "serves env rq s r [p] =
     (case transport env s rq r of
        (Inr resp, s') \<Rightarrow> json_body resp = JList p \<and> next_link resp = None
      | (Inl e, s') \<Rightarrow> False)"
| "serves env rq s r (p # q # ps) =
     (case transport env s rq r of
        (Inr resp, s') \<Rightarrow>
          json_body resp = JList p \<and>
          (case next_link resp of
             None \<Rightarrow> False
           | Some u \<Rightarrow> serves env rq s' \<lparr>verb = GET, path = Url u, params = []\<rparr> (q # ps))
      | (Inl e, s') \<Rightarrow> False)"

text \<open>The object the sequence builds from one decoded item.\<close>

definition hydrate :: "paginated_list \<Rightarrow> json \<Rightarrow> canvas_object" where
  "hydrate pl x =
     \<lparr>element_class = element_type pl, requester = pl_requester pl,
      attributes = merge_context (extra_context pl) (the (as_object x))\<rparr>"

text \<open>
  A call made in the world \<open>w\<close> lets the requester's errors through: it made no exchange,
  or one; and if that one ended in an error of the requester, the call raised this very
  error and left the store as it was.
\<close>

definition propagates :: "'w world \<Rightarrow> (exn + 'a) \<times> 'w world \<Rightarrow> bool" where
  "propagates w out =
     (case out of
        (res, w') \<Rightarrow>
          take (length (issued w)) (issued w') = issued w \<and>
          (case drop (length (issued w)) (issued w') of
             [] \<Rightarrow> True
           | [x] \<Rightarrow>
               (case outcome x of
                  Inl e \<Rightarrow> res = Inl (Requester e) \<and> heap w' = heap w
                | Inr _ \<Rightarrow> True)
           | _ \<Rightarrow> False))"

text \<open>
  A call made in the world \<open>w\<close> on the receiver \<open>self\<close> is lazy: it leaves the world as it
  is (no exchange, no object, no change of the server), and returns a sequence with
  nothing buffered and its first request pending; the one way it raises is the reading
  of \<open>self.id\<close>.
\<close>

definition lazy_call :: "ref \<Rightarrow> 'w world \<Rightarrow> (exn + paginated_list) \<times> 'w world \<Rightarrow> bool" where
  "lazy_call self w out =
     (snd out = w \<and>
      (case getattr (heap w ! self) ''id'' of
         Inl e \<Rightarrow> fst out = Inl e
       | Inr i \<Rightarrow>
           (case fst out of
              Inl e \<Rightarrow> False
            | Inr pl \<Rightarrow> buffered_items pl = [] \<and> current_request pl \<noteq> None)))"

fun is_required_field_missing :: "exn + 'a \<Rightarrow> bool" where
  "is_required_field_missing (Inl (RequiredFieldMissing m)) = True"
| "is_required_field_missing _ = False"

text \<open>
  The object \<open>r\<close> returned in the world \<open>w'\<close> by a call made in \<open>w\<close> on the course \<open>self\<close>
  wraps the body of the one response the call received, with \<open>course_id\<close> set to the
  course's own id whatever the body said: the call made one exchange, answered with a
  JSON object, and \<open>r\<close> is the one object allocated, of class \<open>c\<close>, on the course's
  requester, whose attributes are the fields of the body updated with
  \<open>{'course_id': self.id}\<close>.
\<close>

definition course_id_injected ::
  "resource_type \<Rightarrow> ref \<Rightarrow> 'w world \<Rightarrow> ref \<Rightarrow> 'w world \<Rightarrow> bool" where
  "course_id_injected c self w r w' =
     (take (length (issued w)) (issued w') = issued w \<and>
      (case drop (length (issued w)) (issued w') of
         [x] \<Rightarrow>
           (case outcome x of
              Inl e \<Rightarrow> False
            | Inr resp \<Rightarrow>
                (case as_object (json_body resp) of
                   None \<Rightarrow> False
                 | Some d \<Rightarrow>
                     (case getattr (heap w ! self) ''id'' of
                        Inl e \<Rightarrow> False
                      | Inr i \<Rightarrow>
                          r = length (heap w) \<and>
                          heap w' = heap w @
                            [\<lparr>element_class = c, requester = requester (heap w ! self),
                              attributes = AList.update ''course_id'' i d\<rparr>] \<and>
                          map_of (attributes (heap w' ! r)) ''course_id'' = Some i)))
       | _ \<Rightarrow> False))"

text \<open>
  The transport answers the request \<open>r\<close> of the receiver's requester, in the world \<open>w\<close>,
  with the response \<open>resp\<close>, leaving the server in the state \<open>s'\<close>.
\<close>

definition answered ::
  "'w env \<Rightarrow> ref \<Rightarrow> 'w world \<Rightarrow> http_request \<Rightarrow> response \<Rightarrow> 'w \<Rightarrow> bool" where
  "answered env self w r resp s' =
     (transport env (server w) (requester (heap w ! self)) r = (Inr resp, s'))"

text \<open>
  What a method that injects the parent course returns and leaves behind when its request
  \<open>r\<close> is answered with the object \<open>d\<close>: the reference of a new object of class \<open>c\<close> on the
  receiver's requester, whose attributes are \<open>d\<close> updated with \<open>{'course_id': i}\<close>; the one
  exchange on record; the server as the transport left it.
\<close>

definition injected_result ::
  "resource_type \<Rightarrow> ref \<Rightarrow> 'w world \<Rightarrow> http_request \<Rightarrow> response \<Rightarrow> 'w \<Rightarrow> json \<Rightarrow> fields \<Rightarrow>
     (exn + ref) \<times> 'w world" where
  "injected_result c self w r resp s' i d =
     (Inr (length (heap w)),
      w\<lparr>server := s',
        issued := issued w @
          [\<lparr>sender = requester (heap w ! self), sent = r, outcome = Inr resp\<rparr>],
        heap := heap w @
          [\<lparr>element_class = c, requester = requester (heap w ! self),
            attributes = AList.update ''course_id'' i d\<rparr>]\<rparr>)"

text \<open>
  What a call of a method guarded by the required key \<open>k\<close> of its argument \<open>a\<close> did, made
  in the world \<open>w\<close> on the receiver \<open>self\<close> and declared to return a \<open>c\<close>: it raised
  \<open>RequiredFieldMissing\<close> exactly when the guard failed, and then left the world alone;
  when the guard held and the receiver has an id, it made exactly one exchange, raised the
  requester's error if the exchange failed, and returned a new object of class \<open>c\<close> if the
  exchange was answered with a JSON object.
\<close>

definition checked_call ::
  "string \<Rightarrow> json \<Rightarrow> resource_type \<Rightarrow> ref \<Rightarrow> 'w world \<Rightarrow> (exn + ref) \<times> 'w world \<Rightarrow> bool" where
  "checked_call k a c self w out =
     (case out of
        (res, w') \<Rightarrow>
          (is_required_field_missing res \<longleftrightarrow> \<not> is_dict_with k a) \<and>
          (if is_dict_with k a then
             (case getattr (heap w ! self) ''id'' of
                Inl e \<Rightarrow> res = Inl e \<and> w' = w
              | Inr i \<Rightarrow>
                  take (length (issued w)) (issued w') = issued w \<and>
                  (case drop (length (issued w)) (issued w') of
                     [x] \<Rightarrow>
                       (case outcome x of
                          Inl e \<Rightarrow> res = Inl (Requester e)
                        | Inr resp \<Rightarrow>
                            (case as_object (json_body resp) of
                               None \<Rightarrow> True
                             | Some d \<Rightarrow>
                                 res = Inr (length (heap w)) \<and>
                                 length (heap w') = Suc (length (heap w)) \<and>
                                 element_class (heap w' ! length (heap w)) = c))
                   | _ \<Rightarrow> False))
           else w' = w))"

section \<open>Examples\<close>

text \<open>
  A requester whose every request has the same outcome, and helpers that leave their
  arguments alone.
\<close>

definition canned :: "requester_error + response \<Rightarrow> unit env" where
  "canned out =
     \<lparr>transport = (\<lambda>s rq r. (out, s)),
      combine_kwargs = (\<lambda>kw. kw),
      combine_kwargs_pairs = (\<lambda>kw. kw),
      uploader_start = (\<lambda>rq p f kw w. (Inr (False, JNull), w))\<rparr>"

definition answer :: "fields \<Rightarrow> requester_error + response" where
  "answer d = Inr \<lparr>json_body = JObj d, next_link = None\<rparr>"

text \<open>A course with id 7 and an appointment group with id 3, both on requester 0.\<close>

definition course7 :: canvas_object where
  "course7 = \<lparr>element_class = Course, requester = 0,
              attributes = [(''id'', JInt 7), (''name'', JStr ''Algebra'')]\<rparr>"

definition group3 :: canvas_object where
  "group3 = \<lparr>element_class = AppointmentGroup, requester = 0,
             attributes = [(''id'', JInt 3), (''title'', JStr ''Office hours'')]\<rparr>"

definition world0 :: "unit world" where
  "world0 = \<lparr>server = (), issued = [], heap = [course7, group3]\<rparr>"

text \<open>
  A server with the quizzes of course 7 on two pages, of sizes 2 and 1; the second quiz
  comes with a \<open>course_id\<close> of its own.
\<close>

definition quiz_pages :: "json list list" where
  "quiz_pages =
     [[JObj [(''id'', JInt 10)], JObj [(''id'', JInt 11), (''course_id'', JInt 99)]],
      [JObj [(''id'', JInt 12)]]]"

definition quiz_server :: "unit env" where
  "quiz_server =
     \<lparr>transport = (\<lambda>s rq r.
        (if path r = Fmt ''courses/%s/quizzes'' [JInt 7]
         then Inr \<lparr>json_body = JList (quiz_pages ! 0), next_link = Some ''quizzes?page=2''\<rparr>
         else if path r = Url ''quizzes?page=2''
         then Inr \<lparr>json_body = JList (quiz_pages ! 1), next_link = None\<rparr>
         else Inl (BadStatus 404), s)),
      combine_kwargs = (\<lambda>kw. kw),
      combine_kwargs_pairs = (\<lambda>kw. kw),
      uploader_start = (\<lambda>rq p f kw w. (Inr (False, JNull), w))\<rparr>"

section \<open>Required fields are checked before the network is touched\<close>

text \<open>
  C1. Each of the five mutating methods that validate a dict argument
  (\<open>AppointmentGroup.edit\<close>, \<open>Course.create_assignment\<close>, \<open>Course.create_quiz\<close>,
  \<open>Course.create_module\<close>, \<open>Course.create_page\<close>), given an argument that is not a dict
  holding the required key, raises \<open>RequiredFieldMissing\<close> and returns the world it was
  called in: no exchange was added to the record of requests, and the store, hence the
  receiver's attributes, is the same.
\<close>

theorem required_field_missing_before_any_request:
  "(\<not> is_dict_with ''context_codes'' a \<longrightarrow>
      AppointmentGroup_edit env self a kw w =
        (Inl (RequiredFieldMissing ''Dictionary with key 'context_codes' is required.''), w)) \<and>
   (\<not> is_dict_with ''name'' a \<longrightarrow>
      Course_create_assignment env self a kw w =
        (Inl (RequiredFieldMissing ''Dictionary with key 'name' is required.''), w)) \<and>
   (\<not> is_dict_with ''title'' a \<longrightarrow>
      Course_create_quiz env self a kw w =
        (Inl (RequiredFieldMissing ''Dictionary with key 'title' is required.''), w)) \<and>
   (\<not> is_dict_with ''name'' a \<longrightarrow>
      Course_create_module env self a kw w =
        (Inl (RequiredFieldMissing ''Dictionary with key 'name' is required.''), w)) \<and>
   (\<not> is_dict_with ''title'' a \<longrightarrow>
      Course_create_page env self a kw w =
        (Inl (RequiredFieldMissing ''Dictionary with key 'title' is required.''), w))"
  by (simp add: AppointmentGroup_edit_def Course_create_assignment_def Course_create_quiz_def
      Course_create_module_def Course_create_page_def)

text \<open>
  The theorem at a dict without the key and at a value that is no dict, on the course and
  the appointment group of the example world.
\<close>

theorem required_field_missing_witness:
  "\<not> is_dict_with ''context_codes'' (JObj [(''title'', JStr ''Lab'')]) \<and>
   \<not> is_dict_with ''name'' (JObj [(''title'', JStr ''Lab'')]) \<and>
   \<not> is_dict_with ''title'' (JStr ''title'') \<and>
   AppointmentGroup_edit (canned (answer [])) 1 (JObj [(''title'', JStr ''Lab'')]) [] world0 =
     (Inl (RequiredFieldMissing ''Dictionary with key 'context_codes' is required.''), world0) \<and>
   Course_create_assignment (canned (answer [])) 0 (JObj [(''title'', JStr ''Lab'')]) [] world0 =
     (Inl (RequiredFieldMissing ''Dictionary with key 'name' is required.''), world0) \<and>
   Course_create_module (canned (answer [])) 0 (JObj [(''title'', JStr ''Lab'')]) [] world0 =
     (Inl (RequiredFieldMissing ''Dictionary with key 'name' is required.''), world0) \<and>
   Course_create_quiz (canned (answer [])) 0 (JStr ''title'') [] world0 =
     (Inl (RequiredFieldMissing ''Dictionary with key 'title' is required.''), world0) \<and>
   Course_create_page (canned (answer [])) 0 (JStr ''title'') [] world0 =
     (Inl (RequiredFieldMissing ''Dictionary with key 'title' is required.''), world0) \<and>
   issued world0 = [] \<and> heap world0 = [course7, group3]"
  using required_field_missing_before_any_request
          [where a = "JObj [(''title'', JStr ''Lab'')]" and env = "canned (answer [])"
             and self = 1 and kw = "[]" and w = world0]
        required_field_missing_before_any_request
          [where a = "JObj [(''title'', JStr ''Lab'')]" and env = "canned (answer [])"
             and self = 0 and kw = "[]" and w = world0]
        required_field_missing_before_any_request
          [where a = "JStr ''title''" and env = "canned (answer [])"
             and self = 0 and kw = "[]" and w = world0]
  by (simp add: world0_def)

section \<open>Errors of the requester\<close>

text \<open>
  Facts about the record of exchanges: constructing an object or assigning attributes
  makes no exchange, and a request makes exactly one.
\<close>

lemma propagates_same: "propagates w (res, w)"
  by (simp add: propagates_def)

lemma construct_issued: "issued (snd (construct c rq b w)) = issued w"
  by (cases b) (simp_all add: new_object_def)

lemma construct_with_course_id_issued:
  "issued (snd (construct_with_course_id c self b w)) = issued w"
  by (cases b) (simp_all add: construct_with_course_id_def construct_issued new_object_def split: sum.splits)

lemma set_attributes_issued: "set_attributes self b w = (r, w') \<Longrightarrow> issued w' = issued w"
  by (cases b) auto

lemma propagates_failed: "request env rq r w = (Inl e, w') \<Longrightarrow> propagates w (Inl e, w')"
  by (auto simp: propagates_def request_def split: prod.splits sum.splits)

lemma propagates_answered:
  "request env rq r w = (Inr resp, w') \<Longrightarrow> issued (snd out) = issued w' \<Longrightarrow> propagates w out"
  by (cases out) (auto simp: propagates_def request_def split: prod.splits sum.splits)

lemmas propagates_splits = sum.split prod.split

lemma propagates_conclude: "propagates w (Course_conclude env self w)"
  unfolding Course_conclude_def
  by (auto split: propagates_splits intro!: propagates_same elim!: propagates_failed propagates_answered)

lemma propagates_delete: "propagates w (Course_delete env self w)"
  unfolding Course_delete_def
  by (auto split: propagates_splits intro!: propagates_same elim!: propagates_failed propagates_answered)

lemma propagates_update: "propagates w (Course_update env self kw w)"
  unfolding Course_update_def
  by (auto split: propagates_splits intro!: propagates_same
        elim!: propagates_failed propagates_answered dest: set_attributes_issued)

lemma propagates_get_user: "propagates w (Course_get_user env self u t w)"
  unfolding Course_get_user_def Let_def
  by (auto split: propagates_splits split del: if_split intro!: propagates_same
        elim!: propagates_failed propagates_answered simp: construct_issued)

lemma propagates_get_users: "propagates w (Course_get_users env self t kw w)"
  unfolding Course_get_users_def
  by (auto split: propagates_splits intro!: propagates_same)

lemma propagates_enroll_user: "propagates w (Course_enroll_user env self u t kw w)"
  unfolding Course_enroll_user_def Let_def
  by (auto split: propagates_splits intro!: propagates_same
        elim!: propagates_failed propagates_answered simp: construct_issued)

lemma propagates_get_recent_students: "propagates w (Course_get_recent_students env self w)"
  unfolding Course_get_recent_students_def
  by (auto split: propagates_splits intro!: propagates_same)

lemma propagates_preview_html: "propagates w (Course_preview_html env self h w)"
  unfolding Course_preview_html_def
  by (auto split: propagates_splits intro!: propagates_same elim!: propagates_failed propagates_answered)

lemma propagates_get_settings: "propagates w (Course_get_settings env self w)"
  unfolding Course_get_settings_def
  by (auto split: propagates_splits intro!: propagates_same elim!: propagates_failed propagates_answered)

lemma propagates_update_settings: "propagates w (Course_update_settings env self kw w)"
  unfolding Course_update_settings_def
  by (auto split: propagates_splits intro!: propagates_same elim!: propagates_failed propagates_answered)

lemma propagates_upload:
  "(\<forall>rq p. propagates w (uploader_start env rq p f kw w)) \<Longrightarrow>
   propagates w (Course_upload env self f kw w)"
  unfolding Course_upload_def
  by (auto split: propagates_splits intro!: propagates_same)

lemma propagates_reset: "propagates w (Course_reset env self w)"
  unfolding Course_reset_def
  by (auto split: propagates_splits intro!: propagates_same
        elim!: propagates_failed propagates_answered simp: construct_issued)

lemma propagates_get_enrollments: "propagates w (Course_get_enrollments env self kw w)"
  unfolding Course_get_enrollments_def
  by (auto split: propagates_splits intro!: propagates_same)

lemma propagates_get_assignment: "propagates w (Course_get_assignment env self a kw w)"
  unfolding Course_get_assignment_def
  by (auto split: propagates_splits intro!: propagates_same
        elim!: propagates_failed propagates_answered simp: construct_issued)

lemma propagates_get_assignments: "propagates w (Course_get_assignments env self kw w)"
  unfolding Course_get_assignments_def
  by (auto split: propagates_splits intro!: propagates_same)

lemma propagates_create_assignment: "propagates w (Course_create_assignment env self a kw w)"
  unfolding Course_create_assignment_def Let_def
  by (auto split: propagates_splits intro!: propagates_same
        elim!: propagates_failed propagates_answered simp: construct_issued)

lemma propagates_get_quizzes: "propagates w (Course_get_quizzes env self kw w)"
  unfolding Course_get_quizzes_def
  by (auto split: propagates_splits intro!: propagates_same)

lemma propagates_get_quiz: "propagates w (Course_get_quiz env self q w)"
  unfolding Course_get_quiz_def
  by (auto split: propagates_splits intro!: propagates_same
        elim!: propagates_failed propagates_answered simp: construct_with_course_id_issued)

lemma propagates_create_quiz: "propagates w (Course_create_quiz env self a kw w)"
  unfolding Course_create_quiz_def Let_def
  by (auto split: propagates_splits intro!: propagates_same
        elim!: propagates_failed propagates_answered simp: construct_with_course_id_issued)

lemma propagates_get_modules: "propagates w (Course_get_modules env self kw w)"
  unfolding Course_get_modules_def
  by (auto split: propagates_splits intro!: propagates_same)

lemma propagates_get_module: "propagates w (Course_get_module env self m kw w)"
  unfolding Course_get_module_def
  by (auto split: propagates_splits intro!: propagates_same
        elim!: propagates_failed propagates_answered simp: construct_with_course_id_issued)

lemma propagates_create_module: "propagates w (Course_create_module env self a kw w)"
  unfolding Course_create_module_def Let_def
  by (auto split: propagates_splits intro!: propagates_same
        elim!: propagates_failed propagates_answered simp: construct_with_course_id_issued)

lemma propagates_get_external_tool: "propagates w (Course_get_external_tool env self t w)"
  unfolding Course_get_external_tool_def
  by (auto split: propagates_splits intro!: propagates_same
        elim!: propagates_failed propagates_answered simp: construct_with_course_id_issued)

lemma propagates_get_external_tools: "propagates w (Course_get_external_tools env self kw w)"
  unfolding Course_get_external_tools_def
  by (auto split: propagates_splits intro!: propagates_same)

lemma propagates_get_section: "propagates w (Course_get_section env self x w)"
  unfolding Course_get_section_def
  by (auto split: propagates_splits intro!: propagates_same
        elim!: propagates_failed propagates_answered simp: construct_issued)

lemma propagates_show_front_page: "propagates w (Course_show_front_page env self w)"
  unfolding Course_show_front_page_def
  by (auto split: propagates_splits intro!: propagates_same
        elim!: propagates_failed propagates_answered simp: construct_with_course_id_issued)

lemma propagates_edit_front_page: "propagates w (Course_edit_front_page env self kw w)"
  unfolding Course_edit_front_page_def
  by (auto split: propagates_splits intro!: propagates_same
        elim!: propagates_failed propagates_answered simp: construct_with_course_id_issued)

lemma propagates_get_pages: "propagates w (Course_get_pages env self kw w)"
  unfolding Course_get_pages_def
  by (auto split: propagates_splits intro!: propagates_same)

lemma propagates_create_page: "propagates w (Course_create_page env self a kw w)"
  unfolding Course_create_page_def Let_def
  by (auto split: propagates_splits intro!: propagates_same
        elim!: propagates_failed propagates_answered simp: construct_with_course_id_issued)

lemma propagates_get_page: "propagates w (Course_get_page env self u w)"
  unfolding Course_get_page_def
  by (auto split: propagates_splits intro!: propagates_same
        elim!: propagates_failed propagates_answered simp: construct_with_course_id_issued)

lemma propagates_list_sections: "propagates w (Course_list_sections env self kw w)"
  unfolding Course_list_sections_def
  by (auto split: propagates_splits intro!: propagates_same)

lemma propagates_create_course_section: "propagates w (Course_create_course_section env self kw w)"
  unfolding Course_create_course_section_def
  by (auto split: propagates_splits intro!: propagates_same
        elim!: propagates_failed propagates_answered simp: construct_issued)

lemma propagates_group_delete: "propagates w (AppointmentGroup_delete env self kw w)"
  unfolding AppointmentGroup_delete_def
  by (auto split: propagates_splits intro!: propagates_same
        elim!: propagates_failed propagates_answered simp: construct_issued)

lemma propagates_group_edit: "propagates w (AppointmentGroup_edit env self a kw w)"
  unfolding AppointmentGroup_edit_def Let_def
  by (auto split: propagates_splits intro!: propagates_same
        elim!: propagates_failed propagates_answered simp: construct_issued dest: set_attributes_issued)

text \<open>
  C7. Every method of \<open>Course\<close> and of \<open>AppointmentGroup\<close> lets the requester's errors
  through: a call makes at most one exchange, so nothing is retried, and when that
  exchange ends in an error of the requester the call ends in this very error, with the
  store as it was. \<open>upload\<close> has no request of its own and hands the requester to the
  uploader: it lets through whatever the uploader lets through.
\<close>

theorem requester_errors_propagate:
  "propagates w (Course_conclude env self w) \<and>
   propagates w (Course_delete env self w) \<and>
   propagates w (Course_update env self kw w) \<and>
   propagates w (Course_get_user env self a b w) \<and>
   propagates w (Course_get_users env self a kw w) \<and>
   propagates w (Course_enroll_user env self u a kw w) \<and>
   propagates w (Course_get_recent_students env self w) \<and>
   propagates w (Course_preview_html env self a w) \<and>
   propagates w (Course_get_settings env self w) \<and>
   propagates w (Course_update_settings env self kw w) \<and>
   ((\<forall>rq p. propagates w (uploader_start env rq p a kw w)) \<longrightarrow>
      propagates w (Course_upload env self a kw w)) \<and>
   propagates w (Course_reset env self w) \<and>
   propagates w (Course_get_enrollments env self kw w) \<and>
   propagates w (Course_get_assignment env self a kw w) \<and>
   propagates w (Course_get_assignments env self kw w) \<and>
   propagates w (Course_create_assignment env self a kw w) \<and>
   propagates w (Course_get_quizzes env self kw w) \<and>
   propagates w (Course_get_quiz env self a w) \<and>
   propagates w (Course_create_quiz env self a kw w) \<and>
   propagates w (Course_get_modules env self kw w) \<and>
   propagates w (Course_get_module env self a kw w) \<and>
   propagates w (Course_create_module env self a kw w) \<and>
   propagates w (Course_get_external_tool env self a w) \<and>
   propagates w (Course_get_external_tools env self kw w) \<and>
   propagates w (Course_get_section env self a w) \<and>
   propagates w (Course_show_front_page env self w) \<and>
   propagates w (Course_edit_front_page env self kw w) \<and>
   propagates w (Course_get_pages env self kw w) \<and>
   propagates w (Course_create_page env self a kw w) \<and>
   propagates w (Course_get_page env self a w) \<and>
   propagates w (Course_list_sections env self kw w) \<and>
   propagates w (Course_create_course_section env self kw w) \<and>
   propagates w (AppointmentGroup_delete env self kw w) \<and>
   propagates w (AppointmentGroup_edit env self a kw w)"
  by (intro conjI impI propagates_conclude propagates_delete propagates_update
      propagates_get_user propagates_get_users propagates_enroll_user
      propagates_get_recent_students propagates_preview_html propagates_get_settings
      propagates_update_settings propagates_upload propagates_reset
      propagates_get_enrollments propagates_get_assignment propagates_get_assignments
      propagates_create_assignment propagates_get_quizzes propagates_get_quiz
      propagates_create_quiz propagates_get_modules propagates_get_module
      propagates_create_module propagates_get_external_tool propagates_get_external_tools
      propagates_get_section propagates_show_front_page propagates_edit_front_page
      propagates_get_pages propagates_create_page propagates_get_page
      propagates_list_sections propagates_create_course_section propagates_group_delete
      propagates_group_edit)

text \<open>
  The theorem on a requester that refuses every request: \<open>conclude\<close> on the course and
  \<open>edit\<close> on the appointment group both end in \<open>Unauthorized\<close> after one exchange.
\<close>

theorem requester_errors_propagate_witness:
  "(\<forall>rq p. propagates world0 (uploader_start (canned (Inl Unauthorized)) rq p JNull [] world0)) \<and>
   propagates world0 (Course_upload (canned (Inl Unauthorized)) 0 JNull [] world0) \<and>
   propagates world0 (Course_conclude (canned (Inl Unauthorized)) 0 world0) \<and>
   fst (Course_conclude (canned (Inl Unauthorized)) 0 world0) = Inl (Requester Unauthorized) \<and>
   length (issued (snd (Course_conclude (canned (Inl Unauthorized)) 0 world0))) = 1 \<and>
   propagates world0
     (AppointmentGroup_edit (canned (Inl Unauthorized)) 1 (JObj [(''context_codes'', JList [])]) [] world0) \<and>
   fst (AppointmentGroup_edit (canned (Inl Unauthorized)) 1 (JObj [(''context_codes'', JList [])]) [] world0)
     = Inl (Requester Unauthorized)"
  using requester_errors_propagate
          [where env = "canned (Inl Unauthorized)" and w = world0 and self = 0
             and a = JNull and kw = "[]"]
        requester_errors_propagate
          [where env = "canned (Inl Unauthorized)" and w = world0 and self = 1
             and a = "JObj [(''context_codes'', JList [])]" and kw = "[]"]
  by (simp add: canned_def world0_def course7_def group3_def propagates_def
        Course_conclude_def AppointmentGroup_edit_def getattr_def request_def)

section \<open>The parent course is stamped on what a course returns\<close>

lemma request_answered:
  "request env rq r w = (Inr resp, w') \<Longrightarrow>
   heap w' = heap w \<and> (\<exists>x. issued w' = issued w @ [x] \<and> outcome x = Inr resp)"
  by (auto simp: request_def split: prod.splits sum.splits)

lemma construct_with_course_id_injected:
  assumes "construct_with_course_id c self (json_body resp) w' = (Inr r, w'')"
    and "heap w' = heap w" and "issued w' = issued w @ [x]" and "outcome x = Inr resp"
  shows "course_id_injected c self w r w''"
proof -
  from assms(1) obtain d i where d: "json_body resp = JObj d"
    and i: "getattr (heap w' ! self) ''id'' = Inr i"
    and c: "construct c (requester (heap w' ! self)) (JObj (AList.update ''course_id'' i d)) w'
              = (Inr r, w'')"
    by (auto simp: construct_with_course_id_def split: json.splits sum.splits)
  from c have r: "r = length (heap w')"
    and w'': "w'' = w'\<lparr>heap := heap w' @
                 [\<lparr>element_class = c, requester = requester (heap w' ! self),
                   attributes = AList.update ''course_id'' i d\<rparr>]\<rparr>"
    by (auto simp: new_object_def)
  show ?thesis
    unfolding course_id_injected_def
    using d i r w'' assms(2-4) by (simp add: update_conv')
qed

lemma course_method_injects:
  assumes "(case getattr (heap w ! self) ''id'' of
              Inl e \<Rightarrow> (Inl e, w)
            | Inr i \<Rightarrow>
                (case request env rq (r i) w of
                   (Inl e, w') \<Rightarrow> (Inl e, w')
                 | (Inr resp, w') \<Rightarrow> construct_with_course_id c self (json_body resp) w'))
           = (Inr obj, w'')"
  shows "course_id_injected c self w obj w''"
  using assms
  by (auto split: sum.splits prod.splits dest!: request_answered
        elim: construct_with_course_id_injected)

lemma course_method_returns:
  assumes "getattr (heap w ! self) ''id'' = Inr i"
    and "answered env self w r resp s'" and "json_body resp = JObj d"
  shows "(case request env (requester (heap w ! self)) r w of
            (Inl e, w') \<Rightarrow> (Inl e, w')
          | (Inr resp, w') \<Rightarrow> construct_with_course_id c self (json_body resp) w')
         = injected_result c self w r resp s' i d"
  using assms
  by (simp add: answered_def injected_result_def request_def construct_with_course_id_def
        new_object_def)

text \<open>
  C2. Each of the nine single-resource methods of \<open>Course\<close> that inject the parent
  context (\<open>get_quiz\<close>, \<open>create_quiz\<close>, \<open>get_module\<close>, \<open>create_module\<close>,
  \<open>get_external_tool\<close>, \<open>show_front_page\<close>, \<open>edit_front_page\<close>, \<open>create_page\<close>,
  \<open>get_page\<close>), called on a course with an id (and, for the three guarded ones, with
  the required key), returns a new object when its request is answered with a JSON
  object: an object of the method's resource type on the course's requester, whose
  attributes are the fields of the decoded response updated with \<open>course_id\<close> set to the
  course's own id, whatever \<open>course_id\<close> the response carried. And whenever one of
  these methods returns an object at all, it is such an object.
\<close>

theorem single_resource_methods_inject_course_id:
  "(getattr (heap w ! self) ''id'' = Inr i \<longrightarrow> json_body resp = JObj d \<longrightarrow>
      (answered env self w
         \<lparr>verb = GET, path = Fmt ''courses/%s/quizzes/%s'' [i, quiz_id], params = []\<rparr> resp s' \<longrightarrow>
       Course_get_quiz env self quiz_id w =
         injected_result Quiz self w
           \<lparr>verb = GET, path = Fmt ''courses/%s/quizzes/%s'' [i, quiz_id], params = []\<rparr>
           resp s' i d) \<and>
      (is_dict_with ''title'' quiz \<longrightarrow>
       answered env self w
         \<lparr>verb = POST, path = Fmt ''courses/%s/quizzes'' [i],
          params = combine_kwargs env (AList.update ''quiz'' quiz kw)\<rparr> resp s' \<longrightarrow>
       Course_create_quiz env self quiz kw w =
         injected_result Quiz self w
           \<lparr>verb = POST, path = Fmt ''courses/%s/quizzes'' [i],
            params = combine_kwargs env (AList.update ''quiz'' quiz kw)\<rparr> resp s' i d) \<and>
      (answered env self w
         \<lparr>verb = GET, path = Fmt ''courses/%s/modules/%s'' [i, module_id], params = []\<rparr> resp s' \<longrightarrow>
       Course_get_module env self module_id kw w =
         injected_result Module self w
           \<lparr>verb = GET, path = Fmt ''courses/%s/modules/%s'' [i, module_id], params = []\<rparr>
           resp s' i d) \<and>
      (is_dict_with ''name'' module' \<longrightarrow>
       answered env self w
         \<lparr>verb = POST, path = Fmt ''courses/%s/modules'' [i],
          params = combine_kwargs env (AList.update ''module'' module' kw)\<rparr> resp s' \<longrightarrow>
       Course_create_module env self module' kw w =
         injected_result Module self w
           \<lparr>verb = POST, path = Fmt ''courses/%s/modules'' [i],
            params = combine_kwargs env (AList.update ''module'' module' kw)\<rparr> resp s' i d) \<and>
      (answered env self w
         \<lparr>verb = GET, path = Fmt ''courses/%s/external_tools/%s'' [i, tool_id], params = []\<rparr>
         resp s' \<longrightarrow>
       Course_get_external_tool env self tool_id w =
         injected_result ExternalTool self w
           \<lparr>verb = GET, path = Fmt ''courses/%s/external_tools/%s'' [i, tool_id], params = []\<rparr>
           resp s' i d) \<and>
      (answered env self w
         \<lparr>verb = GET, path = Fmt ''courses/%s/front_page'' [i], params = []\<rparr> resp s' \<longrightarrow>
       Course_show_front_page env self w =
         injected_result Page self w
           \<lparr>verb = GET, path = Fmt ''courses/%s/front_page'' [i], params = []\<rparr> resp s' i d) \<and>
      (answered env self w
         \<lparr>verb = PUT, path = Fmt ''courses/%s/front_page'' [i],
          params = combine_kwargs env kw\<rparr> resp s' \<longrightarrow>
       Course_edit_front_page env self kw w =
         injected_result Page self w
           \<lparr>verb = PUT, path = Fmt ''courses/%s/front_page'' [i],
            params = combine_kwargs env kw\<rparr> resp s' i d) \<and>
      (is_dict_with ''title'' wiki_page \<longrightarrow>
       answered env self w
         \<lparr>verb = POST, path = Fmt ''courses/%s/pages'' [i],
          params = combine_kwargs env (AList.update ''wiki_page'' wiki_page kw)\<rparr> resp s' \<longrightarrow>
       Course_create_page env self wiki_page kw w =
         injected_result Page self w
           \<lparr>verb = POST, path = Fmt ''courses/%s/pages'' [i],
            params = combine_kwargs env (AList.update ''wiki_page'' wiki_page kw)\<rparr> resp s' i d) \<and>
      (answered env self w
         \<lparr>verb = GET, path = Fmt ''courses/%s/pages/%s'' [i, url], params = []\<rparr> resp s' \<longrightarrow>
       Course_get_page env self url w =
         injected_result Page self w
           \<lparr>verb = GET, path = Fmt ''courses/%s/pages/%s'' [i, url], params = []\<rparr> resp s' i d)) \<and>
   (Course_get_quiz env self quiz_id w = (Inr r, w') \<longrightarrow> course_id_injected Quiz self w r w') \<and>
   (Course_create_quiz env self quiz kw w = (Inr r, w') \<longrightarrow> course_id_injected Quiz self w r w') \<and>
   (Course_get_module env self module_id kw w = (Inr r, w') \<longrightarrow>
      course_id_injected Module self w r w') \<and>
   (Course_create_module env self module' kw w = (Inr r, w') \<longrightarrow>
      course_id_injected Module self w r w') \<and>
   (Course_get_external_tool env self tool_id w = (Inr r, w') \<longrightarrow>
      course_id_injected ExternalTool self w r w') \<and>
   (Course_show_front_page env self w = (Inr r, w') \<longrightarrow> course_id_injected Page self w r w') \<and>
   (Course_edit_front_page env self kw w = (Inr r, w') \<longrightarrow> course_id_injected Page self w r w') \<and>
   (Course_create_page env self wiki_page kw w = (Inr r, w') \<longrightarrow>
      course_id_injected Page self w r w') \<and>
   (Course_get_page env self url w = (Inr r, w') \<longrightarrow> course_id_injected Page self w r w')"
proof -
  have returns: "getattr (heap w ! self) ''id'' = Inr i \<longrightarrow> json_body resp = JObj d \<longrightarrow>
      (answered env self w
         \<lparr>verb = GET, path = Fmt ''courses/%s/quizzes/%s'' [i, quiz_id], params = []\<rparr> resp s' \<longrightarrow>
       Course_get_quiz env self quiz_id w =
         injected_result Quiz self w
           \<lparr>verb = GET, path = Fmt ''courses/%s/quizzes/%s'' [i, quiz_id], params = []\<rparr>
           resp s' i d) \<and>
      (is_dict_with ''title'' quiz \<longrightarrow>
       answered env self w
         \<lparr>verb = POST, path = Fmt ''courses/%s/quizzes'' [i],
          params = combine_kwargs env (AList.update ''quiz'' quiz kw)\<rparr> resp s' \<longrightarrow>
       Course_create_quiz env self quiz kw w =
         injected_result Quiz self w
           \<lparr>verb = POST, path = Fmt ''courses/%s/quizzes'' [i],
            params = combine_kwargs env (AList.update ''quiz'' quiz kw)\<rparr> resp s' i d) \<and>
      (answered env self w
         \<lparr>verb = GET, path = Fmt ''courses/%s/modules/%s'' [i, module_id], params = []\<rparr> resp s' \<longrightarrow>
       Course_get_module env self module_id kw w =
         injected_result Module self w
           \<lparr>verb = GET, path = Fmt ''courses/%s/modules/%s'' [i, module_id], params = []\<rparr>
           resp s' i d) \<and>
      (is_dict_with ''name'' module' \<longrightarrow>
       answered env self w
         \<lparr>verb = POST, path = Fmt ''courses/%s/modules'' [i],
          params = combine_kwargs env (AList.update ''module'' module' kw)\<rparr> resp s' \<longrightarrow>
       Course_create_module env self module' kw w =
         injected_result Module self w
           \<lparr>verb = POST, path = Fmt ''courses/%s/modules'' [i],
            params = combine_kwargs env (AList.update ''module'' module' kw)\<rparr> resp s' i d) \<and>
      (answered env self w
         \<lparr>verb = GET, path = Fmt ''courses/%s/external_tools/%s'' [i, tool_id], params = []\<rparr>
         resp s' \<longrightarrow>
       Course_get_external_tool env self tool_id w =
         injected_result ExternalTool self w
           \<lparr>verb = GET, path = Fmt ''courses/%s/external_tools/%s'' [i, tool_id], params = []\<rparr>
           resp s' i d) \<and>
      (answered env self w
         \<lparr>verb = GET, path = Fmt ''courses/%s/front_page'' [i], params = []\<rparr> resp s' \<longrightarrow>
       Course_show_front_page env self w =
         injected_result Page self w
           \<lparr>verb = GET, path = Fmt ''courses/%s/front_page'' [i], params = []\<rparr> resp s' i d) \<and>
      (answered env self w
         \<lparr>verb = PUT, path = Fmt ''courses/%s/front_page'' [i],
          params = combine_kwargs env kw\<rparr> resp s' \<longrightarrow>
       Course_edit_front_page env self kw w =
         injected_result Page self w
           \<lparr>verb = PUT, path = Fmt ''courses/%s/front_page'' [i],
            params = combine_kwargs env kw\<rparr> resp s' i d) \<and>
      (is_dict_with ''title'' wiki_page \<longrightarrow>
       answered env self w
         \<lparr>verb = POST, path = Fmt ''courses/%s/pages'' [i],
          params = combine_kwargs env (AList.update ''wiki_page'' wiki_page kw)\<rparr> resp s' \<longrightarrow>
       Course_create_page env self wiki_page kw w =
         injected_result Page self w
           \<lparr>verb = POST, path = Fmt ''courses/%s/pages'' [i],
            params = combine_kwargs env (AList.update ''wiki_page'' wiki_page kw)\<rparr> resp s' i d) \<and>
      (answered env self w
         \<lparr>verb = GET, path = Fmt ''courses/%s/pages/%s'' [i, url], params = []\<rparr> resp s' \<longrightarrow>
       Course_get_page env self url w =
         injected_result Page self w
           \<lparr>verb = GET, path = Fmt ''courses/%s/pages/%s'' [i, url], params = []\<rparr> resp s' i d)"
    by (simp add: Course_get_quiz_def Course_create_quiz_def Course_get_module_def
          Course_create_module_def Course_get_external_tool_def Course_show_front_page_def
          Course_edit_front_page_def Course_create_page_def Course_get_page_def
          course_method_returns)
  have whenever:
   "(Course_get_quiz env self quiz_id w = (Inr r, w') \<longrightarrow> course_id_injected Quiz self w r w') \<and>
    (Course_create_quiz env self quiz kw w = (Inr r, w') \<longrightarrow> course_id_injected Quiz self w r w') \<and>
    (Course_get_module env self module_id kw w = (Inr r, w') \<longrightarrow>
       course_id_injected Module self w r w') \<and>
    (Course_create_module env self module' kw w = (Inr r, w') \<longrightarrow>
       course_id_injected Module self w r w') \<and>
    (Course_get_external_tool env self tool_id w = (Inr r, w') \<longrightarrow>
       course_id_injected ExternalTool self w r w') \<and>
    (Course_show_front_page env self w = (Inr r, w') \<longrightarrow> course_id_injected Page self w r w') \<and>
    (Course_edit_front_page env self kw w = (Inr r, w') \<longrightarrow> course_id_injected Page self w r w') \<and>
    (Course_create_page env self wiki_page kw w = (Inr r, w') \<longrightarrow>
       course_id_injected Page self w r w') \<and>
    (Course_get_page env self url w = (Inr r, w') \<longrightarrow> course_id_injected Page self w r w')"
    unfolding Course_get_quiz_def Course_create_quiz_def Course_get_module_def
      Course_create_module_def Course_get_external_tool_def Course_show_front_page_def
      Course_edit_front_page_def Course_create_page_def Course_get_page_def Let_def
    by (auto split: if_splits elim!: course_method_injects)
  from returns whenever show ?thesis by (rule conjI)
qed

text \<open>
  The theorem on a response that brings a \<open>course_id\<close> of 99 to the course with id 7:
  each of the nine methods returns the new object at reference 2, of its own resource
  type, with \<open>course_id\<close> 7.
\<close>

theorem single_resource_methods_inject_course_id_witness:
  "getattr (heap world0 ! 0) ''id'' = Inr (JInt 7) \<and>
   is_dict_with ''title'' (JObj [(''title'', JStr ''Week 1'')]) \<and>
   is_dict_with ''name'' (JObj [(''name'', JStr ''Unit 1'')]) \<and>
   answered (canned (answer [(''id'', JInt 5), (''course_id'', JInt 99)])) 0 world0
     \<lparr>verb = GET, path = Fmt ''courses/%s/front_page'' [JInt 7], params = []\<rparr>
     \<lparr>json_body = JObj [(''id'', JInt 5), (''course_id'', JInt 99)], next_link = None\<rparr> () \<and>
   Course_get_quiz (canned (answer [(''id'', JInt 5), (''course_id'', JInt 99)])) 0 (JInt 5) world0
     = (Inr 2,
        world0\<lparr>issued := [\<lparr>sender = 0,
                   sent = \<lparr>verb = GET, path = Fmt ''courses/%s/quizzes/%s'' [JInt 7, JInt 5],
                           params = []\<rparr>,
                   outcome = answer [(''id'', JInt 5), (''course_id'', JInt 99)]\<rparr>],
               heap := [course7, group3,
                        \<lparr>element_class = Quiz, requester = 0,
                         attributes = [(''id'', JInt 5), (''course_id'', JInt 7)]\<rparr>]\<rparr>) \<and>
   course_id_injected Quiz 0 world0 2
     (world0\<lparr>issued := [\<lparr>sender = 0,
                   sent = \<lparr>verb = GET, path = Fmt ''courses/%s/quizzes/%s'' [JInt 7, JInt 5],
                           params = []\<rparr>,
                   outcome = answer [(''id'', JInt 5), (''course_id'', JInt 99)]\<rparr>],
               heap := [course7, group3,
                        \<lparr>element_class = Quiz, requester = 0,
                         attributes = [(''id'', JInt 5), (''course_id'', JInt 7)]\<rparr>]\<rparr>) \<and>
   fst (Course_create_quiz (canned (answer [(''id'', JInt 5), (''course_id'', JInt 99)])) 0
          (JObj [(''title'', JStr ''Week 1'')]) [] world0) = Inr 2 \<and>
   heap (snd (Course_create_quiz (canned (answer [(''id'', JInt 5), (''course_id'', JInt 99)])) 0
          (JObj [(''title'', JStr ''Week 1'')]) [] world0))
     = [course7, group3,
        \<lparr>element_class = Quiz, requester = 0,
         attributes = [(''id'', JInt 5), (''course_id'', JInt 7)]\<rparr>] \<and>
   fst (Course_get_module (canned (answer [(''id'', JInt 5), (''course_id'', JInt 99)])) 0
          (JInt 5) [] world0) = Inr 2 \<and>
   heap (snd (Course_get_module (canned (answer [(''id'', JInt 5), (''course_id'', JInt 99)])) 0
          (JInt 5) [] world0))
     = [course7, group3,
        \<lparr>element_class = Module, requester = 0,
         attributes = [(''id'', JInt 5), (''course_id'', JInt 7)]\<rparr>] \<and>
   fst (Course_create_module (canned (answer [(''id'', JInt 5), (''course_id'', JInt 99)])) 0
          (JObj [(''name'', JStr ''Unit 1'')]) [] world0) = Inr 2 \<and>
   heap (snd (Course_create_module (canned (answer [(''id'', JInt 5), (''course_id'', JInt 99)])) 0
          (JObj [(''name'', JStr ''Unit 1'')]) [] world0))
     = [course7, group3,
        \<lparr>element_class = Module, requester = 0,
         attributes = [(''id'', JInt 5), (''course_id'', JInt 7)]\<rparr>] \<and>
   fst (Course_get_external_tool (canned (answer [(''id'', JInt 5), (''course_id'', JInt 99)])) 0
          (JInt 5) world0) = Inr 2 \<and>
   heap (snd (Course_get_external_tool (canned (answer [(''id'', JInt 5), (''course_id'', JInt 99)])) 0
          (JInt 5) world0))
     = [course7, group3,
        \<lparr>element_class = ExternalTool, requester = 0,
         attributes = [(''id'', JInt 5), (''course_id'', JInt 7)]\<rparr>] \<and>
   fst (Course_show_front_page (canned (answer [(''id'', JInt 5), (''course_id'', JInt 99)])) 0
          world0) = Inr 2 \<and>
   heap (snd (Course_show_front_page (canned (answer [(''id'', JInt 5), (''course_id'', JInt 99)])) 0
          world0))
     = [course7, group3,
        \<lparr>element_class = Page, requester = 0,
         attributes = [(''id'', JInt 5), (''course_id'', JInt 7)]\<rparr>] \<and>
   fst (Course_edit_front_page (canned (answer [(''id'', JInt 5), (''course_id'', JInt 99)])) 0
          [] world0) = Inr 2 \<and>
   heap (snd (Course_edit_front_page (canned (answer [(''id'', JInt 5), (''course_id'', JInt 99)])) 0
          [] world0))
     = [course7, group3,
        \<lparr>element_class = Page, requester = 0,
         attributes = [(''id'', JInt 5), (''course_id'', JInt 7)]\<rparr>] \<and>
   fst (Course_create_page (canned (answer [(''id'', JInt 5), (''course_id'', JInt 99)])) 0
          (JObj [(''title'', JStr ''Week 1'')]) [] world0) = Inr 2 \<and>
   heap (snd (Course_create_page (canned (answer [(''id'', JInt 5), (''course_id'', JInt 99)])) 0
          (JObj [(''title'', JStr ''Week 1'')]) [] world0))
     = [course7, group3,
        \<lparr>element_class = Page, requester = 0,
         attributes = [(''id'', JInt 5), (''course_id'', JInt 7)]\<rparr>] \<and>
   fst (Course_get_page (canned (answer [(''id'', JInt 5), (''course_id'', JInt 99)])) 0
          (JStr ''syllabus'') world0) = Inr 2 \<and>
   heap (snd (Course_get_page (canned (answer [(''id'', JInt 5), (''course_id'', JInt 99)])) 0
          (JStr ''syllabus'') world0))
     = [course7, group3,
        \<lparr>element_class = Page, requester = 0,
         attributes = [(''id'', JInt 5), (''course_id'', JInt 7)]\<rparr>]"
proof -
  let ?d = "[(''id'', JInt 5), (''course_id'', JInt 99)]"
  let ?E = "canned (answer ?d)"
  let ?resp = "\<lparr>json_body = JObj ?d, next_link = None\<rparr>"
  let ?W = "world0\<lparr>issued := [\<lparr>sender = 0,
                   sent = \<lparr>verb = GET, path = Fmt ''courses/%s/quizzes/%s'' [JInt 7, JInt 5],
                           params = []\<rparr>,
                   outcome = answer ?d\<rparr>],
               heap := [course7, group3,
                        \<lparr>element_class = Quiz, requester = 0,
                         attributes = [(''id'', JInt 5), (''course_id'', JInt 7)]\<rparr>]\<rparr>"
  have own: "getattr (heap world0 ! 0) ''id'' = Inr (JInt 7)"
    by (simp add: world0_def course7_def getattr_def)
  have body: "json_body ?resp = JObj ?d" by simp
  have ans: "answered ?E 0 world0 r ?resp ()" for r
    by (simp add: answered_def canned_def answer_def)
  have t: "is_dict_with ''title'' (JObj [(''title'', JStr ''Week 1'')])"
    and n: "is_dict_with ''name'' (JObj [(''name'', JStr ''Unit 1'')])"
    by simp_all
  note inst = single_resource_methods_inject_course_id
      [where env = ?E and self = 0 and w = world0 and i = "JInt 7" and resp = ?resp and d = ?d
         and s' = "()" and kw = "[]" and quiz_id = "JInt 5" and module_id = "JInt 5"
         and tool_id = "JInt 5" and url = "JStr ''syllabus''"
         and quiz = "JObj [(''title'', JStr ''Week 1'')]"
         and wiki_page = "JObj [(''title'', JStr ''Week 1'')]"
         and module' = "JObj [(''name'', JStr ''Unit 1'')]" and r = 2 and w' = ?W]
  note ret = inst[THEN conjunct1, rule_format, OF own body]
  note c1 = ret[THEN conjunct1, rule_format, OF ans]
  note c2 = ret[THEN conjunct2, THEN conjunct1, rule_format, OF t ans]
  note c3 = ret[THEN conjunct2, THEN conjunct2, THEN conjunct1, rule_format, OF ans]
  note c4 = ret[THEN conjunct2, THEN conjunct2, THEN conjunct2, THEN conjunct1, rule_format,
                OF n ans]
  note c5 = ret[THEN conjunct2, THEN conjunct2, THEN conjunct2, THEN conjunct2, THEN conjunct1,
                rule_format, OF ans]
  note c6 = ret[THEN conjunct2, THEN conjunct2, THEN conjunct2, THEN conjunct2, THEN conjunct2,
                THEN conjunct1, rule_format, OF ans]
  note c7 = ret[THEN conjunct2, THEN conjunct2, THEN conjunct2, THEN conjunct2, THEN conjunct2,
                THEN conjunct2, THEN conjunct1, rule_format, OF ans]
  note c8 = ret[THEN conjunct2, THEN conjunct2, THEN conjunct2, THEN conjunct2, THEN conjunct2,
                THEN conjunct2, THEN conjunct2, THEN conjunct1, rule_format, OF t ans]
  note c9 = ret[THEN conjunct2, THEN conjunct2, THEN conjunct2, THEN conjunct2, THEN conjunct2,
                THEN conjunct2, THEN conjunct2, THEN conjunct2, rule_format, OF ans]
  note runs = c1 c2 c3 c4 c5 c6 c7 c8 c9
  have quiz: "Course_get_quiz ?E 0 (JInt 5) world0 = (Inr 2, ?W)"
    by (subst c1) (simp add: injected_result_def world0_def course7_def answer_def)
  have inj: "course_id_injected Quiz 0 world0 2 ?W"
    by (rule inst[THEN conjunct2, THEN conjunct1, rule_format, OF quiz])
  have make: "fst (injected_result c 0 world0 r ?resp () (JInt 7) ?d) = Inr 2 \<and>
      heap (snd (injected_result c 0 world0 r ?resp () (JInt 7) ?d)) =
        [course7, group3,
         \<lparr>element_class = c, requester = 0,
          attributes = [(''id'', JInt 5), (''course_id'', JInt 7)]\<rparr>]" for c r
    by (simp add: injected_result_def world0_def course7_def)
  show ?thesis
    by (intro conjI own t n ans quiz inj)
       (simp_all only: runs make)
qed

section \<open>The required key, the one request and the object returned\<close>

lemma request_outcome:
  "request env rq r w = (res, w') \<Longrightarrow>
   heap w' = heap w \<and>
   (\<exists>x. issued w' = issued w @ [x] \<and>
        (case outcome x of Inl e \<Rightarrow> res = Inl (Requester e) | Inr resp \<Rightarrow> res = Inr resp))"
  by (auto simp: request_def split: prod.splits sum.splits)

lemma getattr_error: "getattr obj k = Inl e \<Longrightarrow> e = AttributeError"
  by (auto simp: getattr_def split: option.splits)

lemma construct_result:
  "issued (snd (construct c rq b w)) = issued w \<and>
   \<not> is_required_field_missing (fst (construct c rq b w)) \<and>
   (case as_object b of
      None \<Rightarrow> True
    | Some d \<Rightarrow>
        fst (construct c rq b w) = Inr (length (heap w)) \<and>
        length (heap (snd (construct c rq b w))) = Suc (length (heap w)) \<and>
        element_class (heap (snd (construct c rq b w)) ! length (heap w)) = c)"
  by (cases b) (auto simp: new_object_def)

lemma construct_with_course_id_result:
  "getattr (heap w ! self) ''id'' = Inr i \<Longrightarrow>
   issued (snd (construct_with_course_id c self b w)) = issued w \<and>
   \<not> is_required_field_missing (fst (construct_with_course_id c self b w)) \<and>
   (case as_object b of
      None \<Rightarrow> True
    | Some d \<Rightarrow>
        fst (construct_with_course_id c self b w) = Inr (length (heap w)) \<and>
        length (heap (snd (construct_with_course_id c self b w))) = Suc (length (heap w)) \<and>
        element_class (heap (snd (construct_with_course_id c self b w)) ! length (heap w)) = c)"
  by (cases b) (auto simp: construct_with_course_id_def new_object_def)

lemma checked_call_shape:
  assumes tail: "\<And>resp w1 i. heap w1 = heap w \<Longrightarrow> getattr (heap w ! self) ''id'' = Inr i \<Longrightarrow>
     issued (snd (tail resp w1)) = issued w1 \<and>
     \<not> is_required_field_missing (fst (tail resp w1)) \<and>
     (case as_object (json_body resp) of
        None \<Rightarrow> True
      | Some d \<Rightarrow>
          fst (tail resp w1) = Inr (length (heap w1)) \<and>
          length (heap (snd (tail resp w1))) = Suc (length (heap w1)) \<and>
          element_class (heap (snd (tail resp w1)) ! length (heap w1)) = c)"
  shows "checked_call k a c self w
           (if is_dict_with k a then
              (case getattr (heap w ! self) ''id'' of
                 Inl e \<Rightarrow> (Inl e, w)
               | Inr i \<Rightarrow>
                   (case request env rq (r i) w of
                      (Inl e, w') \<Rightarrow> (Inl e, w')
                    | (Inr resp, w') \<Rightarrow> tail resp w'))
            else (Inl (RequiredFieldMissing m), w))"
proof (cases "is_dict_with k a")
  case False
  then show ?thesis by (simp add: checked_call_def)
next
  case True
  show ?thesis
  proof (cases "getattr (heap w ! self) ''id''")
    case (Inl e)
    with True getattr_error[OF Inl] show ?thesis
      by (simp add: checked_call_def)
  next
    case (Inr i)
    obtain res1 w1 where rq: "request env rq (r i) w = (res1, w1)"
      by (metis surj_pair)
    from request_outcome[OF rq] obtain x where h: "heap w1 = heap w"
      and x: "issued w1 = issued w @ [x]"
      and o: "case outcome x of Inl e \<Rightarrow> res1 = Inl (Requester e) | Inr resp \<Rightarrow> res1 = Inr resp"
      by blast
    show ?thesis
    proof (cases "outcome x")
      case e: (Inl e)
      with o have "res1 = Inl (Requester e)" by simp
      with True Inr rq x e show ?thesis
        by (simp add: checked_call_def)
    next
      case resp: (Inr resp)
      with o have "res1 = Inr resp" by simp
      with True Inr rq x h resp tail[OF h Inr, of resp] show ?thesis
        by (cases "tail resp w1") (auto simp: checked_call_def split: option.splits)
    qed
  qed
qed

lemma checked_create_assignment:
  "checked_call ''name'' a Assignment self w (Course_create_assignment env self a kw w)"
  unfolding Course_create_assignment_def Let_def
  by (rule checked_call_shape) (simp add: construct_result)

lemma checked_create_quiz:
  "checked_call ''title'' a Quiz self w (Course_create_quiz env self a kw w)"
  unfolding Course_create_quiz_def Let_def
  by (rule checked_call_shape) (simp add: construct_with_course_id_result)

lemma checked_create_module:
  "checked_call ''name'' a Module self w (Course_create_module env self a kw w)"
  unfolding Course_create_module_def Let_def
  by (rule checked_call_shape) (simp add: construct_with_course_id_result)

lemma checked_create_page:
  "checked_call ''title'' a Page self w (Course_create_page env self a kw w)"
  unfolding Course_create_page_def Let_def
  by (rule checked_call_shape) (simp add: construct_with_course_id_result)

lemma checked_group_edit:
  "checked_call ''context_codes'' a AppointmentGroup self w (AppointmentGroup_edit env self a kw w)"
  unfolding AppointmentGroup_edit_def Let_def
  apply (rule checked_call_shape)
  subgoal for resp w1 i
    by (cases "json_body resp")
       (auto simp: new_object_def nth_append split: sum.splits prod.splits)
  done

text \<open>
  C3, as the code has it. Each of the five guarded methods raises \<open>RequiredFieldMissing\<close>
  if and only if its argument is not a dict holding the mandatory key. When the key is
  there and the receiver has an id, exactly one exchange is made; if it is answered with
  a JSON object, a new object of the declared resource type is returned, and if the
  requester fails, its error is raised and no object is returned.
\<close>

theorem required_key_checked_then_one_request:
  "checked_call ''context_codes'' a AppointmentGroup self w (AppointmentGroup_edit env self a kw w) \<and>
   checked_call ''name'' a Assignment self w (Course_create_assignment env self a kw w) \<and>
   checked_call ''name'' a Module self w (Course_create_module env self a kw w) \<and>
   checked_call ''title'' a Quiz self w (Course_create_quiz env self a kw w) \<and>
   checked_call ''title'' a Page self w (Course_create_page env self a kw w)"
  by (intro conjI checked_group_edit checked_create_assignment checked_create_module
      checked_create_quiz checked_create_page)

text \<open>
  The theorem on \<open>create_assignment\<close> with the key present and a requester that answers
  with an object: one exchange, and a new \<open>Assignment\<close> returned.
\<close>

theorem required_key_checked_witness:
  "is_dict_with ''name'' (JObj [(''name'', JStr ''Essay'')]) \<and>
   checked_call ''name'' (JObj [(''name'', JStr ''Essay'')]) Assignment 0 world0
     (Course_create_assignment (canned (answer [(''id'', JInt 40)])) 0
        (JObj [(''name'', JStr ''Essay'')]) [] world0) \<and>
   fst (Course_create_assignment (canned (answer [(''id'', JInt 40)])) 0
        (JObj [(''name'', JStr ''Essay'')]) [] world0) = Inr 2 \<and>
   length (issued (snd (Course_create_assignment (canned (answer [(''id'', JInt 40)])) 0
        (JObj [(''name'', JStr ''Essay'')]) [] world0))) = 1 \<and>
   element_class (heap (snd (Course_create_assignment (canned (answer [(''id'', JInt 40)])) 0
        (JObj [(''name'', JStr ''Essay'')]) [] world0)) ! 2) = Assignment"
  using required_key_checked_then_one_request
          [where a = "JObj [(''name'', JStr ''Essay'')]" and self = 0 and w = world0
             and env = "canned (answer [(''id'', JInt 40)])" and kw = "[]"]
  by (simp add: Course_create_assignment_def canned_def answer_def world0_def course7_def
        getattr_def request_def new_object_def)

text \<open>
  C3 as stated promises one request and an object whenever the key is present. With the
  key present and a requester whose transport fails, \<open>create_assignment\<close> makes its one
  request and raises the requester's error: no object is returned. With the key present
  and a receiver that was built from a body without \<open>id\<close>, reading \<open>self.id\<close> raises
  before any request is made.
\<close>

theorem key_present_request_fails_counterexample:
  "is_dict_with ''name'' (JObj [(''name'', JStr ''Essay'')]) \<and>
   Course_create_assignment (canned (Inl TransportError)) 0 (JObj [(''name'', JStr ''Essay'')]) []
     world0 =
     (Inl (Requester TransportError),
      world0\<lparr>issued :=
        [\<lparr>sender = 0,
          sent = \<lparr>verb = POST, path = Fmt ''courses/%s/assignments'' [JInt 7],
                  params = [(''assignment'', JObj [(''name'', JStr ''Essay'')])]\<rparr>,
          outcome = Inl TransportError\<rparr>]\<rparr>) \<and>
   Course_create_assignment (canned (answer [(''id'', JInt 40)])) 0
     (JObj [(''name'', JStr ''Essay'')]) []
     (world0\<lparr>heap := [\<lparr>element_class = Course, requester = 0,
                         attributes = [(''name'', JStr ''Algebra'')]\<rparr>]\<rparr>) =
     (Inl AttributeError,
      world0\<lparr>heap := [\<lparr>element_class = Course, requester = 0,
                        attributes = [(''name'', JStr ''Algebra'')]\<rparr>]\<rparr>)"
  by (simp add: Course_create_assignment_def canned_def world0_def course7_def
        getattr_def request_def)

section \<open>The list methods are lazy\<close>

text \<open>
  C4. Each of the nine methods of \<open>Course\<close> that return a Paginated Sequence
  (\<open>get_users\<close>, \<open>get_recent_students\<close>, \<open>get_enrollments\<close>, \<open>get_assignments\<close>,
  \<open>get_quizzes\<close>, \<open>get_modules\<close>, \<open>get_external_tools\<close>, \<open>get_pages\<close>,
  \<open>list_sections\<close>) returns the world it was called in, so no exchange is made during the
  call, and the sequence it returns has nothing buffered and its first request pending.
\<close>

theorem list_methods_make_no_request:
  "lazy_call self w (Course_get_users env self a kw w) \<and>
   lazy_call self w (Course_get_recent_students env self w) \<and>
   lazy_call self w (Course_get_enrollments env self kw w) \<and>
   lazy_call self w (Course_get_assignments env self kw w) \<and>
   lazy_call self w (Course_get_quizzes env self kw w) \<and>
   lazy_call self w (Course_get_modules env self kw w) \<and>
   lazy_call self w (Course_get_external_tools env self kw w) \<and>
   lazy_call self w (Course_get_pages env self kw w) \<and>
   lazy_call self w (Course_list_sections env self kw w)"
  by (simp add: lazy_call_def Construct_def Course_get_users_def Course_get_recent_students_def
        Course_get_enrollments_def Course_get_assignments_def Course_get_quizzes_def
        Course_get_modules_def Course_get_external_tools_def Course_get_pages_def
        Course_list_sections_def split: sum.split)

text \<open>
  The theorem on a requester whose transport would fail: \<open>get_quizzes\<close> still returns its
  sequence, and the record of exchanges stays empty.
\<close>

theorem list_methods_make_no_request_witness:
  "lazy_call 0 world0 (Course_get_quizzes (canned (Inl TransportError)) 0 [] world0) \<and>
   snd (Course_get_quizzes (canned (Inl TransportError)) 0 [] world0) = world0 \<and>
   issued world0 = [] \<and>
   fst (Course_get_quizzes (canned (Inl TransportError)) 0 [] world0) =
     Inr (Construct Quiz 0 GET (Fmt ''courses/%s/quizzes'' [JInt 7]) (Some [(''course_id'', JInt 7)]) [])"
  using list_methods_make_no_request
          [where self = 0 and w = world0 and env = "canned (Inl TransportError)" and kw = "[]"]
  by (simp add: Course_get_quizzes_def canned_def world0_def course7_def getattr_def)

section \<open>What update returns and when it assigns\<close>




section \<open>What edit assigns and what it returns\<close>



section \<open>Which list methods pass an extra context\<close>

lemma construct_all_eq:
  "construct_all c rq ds w =
     ([length (heap w) ..< length (heap w) + length ds],
      w\<lparr>heap := heap w @ map (\<lambda>d. \<lparr>element_class = c, requester = rq, attributes = d\<rparr>) ds\<rparr>)"
proof (induction ds arbitrary: w)
  case Nil
  show ?case by simp
next
  case (Cons d ds)
  have "[length (heap w) ..< Suc (length (heap w) + length ds)] =
        length (heap w) # [Suc (length (heap w)) ..< Suc (length (heap w) + length ds)]"
    by (simp add: upt_rec)
  then show ?case
    by (simp add: Cons.IH new_object_def)
qed

lemma fetch_page_without_context:
  assumes "extra_context pl = None" and "fetch_page env pl r w = (Inr pl', w')"
  shows "\<exists>x resp items.
           issued w' = issued w @ [x] \<and> outcome x = Inr resp \<and>
           decode_page (expected_key pl) (json_body resp) = Inr items \<and>
           heap w' = heap w @ map (\<lambda>d. \<lparr>element_class = element_type pl,
                                        requester = pl_requester pl, attributes = d\<rparr>) items \<and>
           buffered_items pl' =
             buffered_items pl @ [length (heap w) ..< length (heap w) + length items]"
proof -
  obtain res1 w1 where rq: "request env (pl_requester pl) r w = (res1, w1)"
    by (metis surj_pair)
  from request_outcome[OF rq] obtain x where h: "heap w1 = heap w"
    and x: "issued w1 = issued w @ [x]"
    and o: "case outcome x of Inl e \<Rightarrow> res1 = Inl (Requester e) | Inr resp \<Rightarrow> res1 = Inr resp"
    by blast
  from assms(2) rq obtain resp where resp: "res1 = Inr resp"
    by (cases res1) (auto simp: fetch_page_def)
  with o have out: "outcome x = Inr resp" by (auto split: sum.splits)
  from assms(2) rq resp obtain items where
    items: "decode_page (expected_key pl) (json_body resp) = Inr items"
    by (cases "decode_page (expected_key pl) (json_body resp)") (auto simp: fetch_page_def)
  have "map (merge_context (extra_context pl)) items = items"
    using assms(1) by (simp add: map_idI)
  with assms(2) rq resp items h x have
    "issued w' = issued w @ [x] \<and>
     heap w' = heap w @ map (\<lambda>d. \<lparr>element_class = element_type pl,
                                  requester = pl_requester pl, attributes = d\<rparr>) items \<and>
     buffered_items pl' = buffered_items pl @ [length (heap w) ..< length (heap w) + length items]"
    by (auto simp: fetch_page_def construct_all_eq)
  with out items show ?thesis by blast
qed

text \<open>
  C10. Called on a course with an id, each of the nine list methods returns, in the
  world it was called in, exactly the sequence constructed with the arguments of the
  source: \<open>get_quizzes\<close>, \<open>get_modules\<close>, \<open>get_external_tools\<close> and \<open>get_pages\<close> with the
  extra context \<open>{'course_id': self.id}\<close>; \<open>get_users\<close>, \<open>get_recent_students\<close>,
  \<open>get_enrollments\<close>, \<open>get_assignments\<close> and \<open>list_sections\<close> with none. Whenever one of
  them returns a sequence, its extra context is the one just said. A sequence with no
  extra context, fetching a page, allocates one object per decoded item, whose
  attributes are exactly the decoded fields.
\<close>

theorem only_four_list_methods_pass_course_id:
  "(getattr (heap w ! self) ''id'' = Inr i \<longrightarrow>
      Course_get_quizzes env self kw w =
        (Inr (Construct Quiz (requester (heap w ! self)) GET (Fmt ''courses/%s/quizzes'' [i])
                (Some [(''course_id'', i)]) (combine_kwargs env kw)), w) \<and>
      Course_get_modules env self kw w =
        (Inr (Construct Module (requester (heap w ! self)) GET (Fmt ''courses/%s/modules'' [i])
                (Some [(''course_id'', i)]) (combine_kwargs env kw)), w) \<and>
      Course_get_external_tools env self kw w =
        (Inr (Construct ExternalTool (requester (heap w ! self)) GET
                (Fmt ''courses/%s/external_tools'' [i])
                (Some [(''course_id'', i)]) (combine_kwargs env kw)), w) \<and>
      Course_get_pages env self kw w =
        (Inr (Construct Page (requester (heap w ! self)) GET (Fmt ''courses/%s/pages'' [i])
                (Some [(''course_id'', i)]) []), w) \<and>
      Course_get_users env self search_term kw w =
        (Inr (Construct User (requester (heap w ! self)) GET
                (Fmt ''courses/%s/search_users'' [i]) None (combine_kwargs env kw)), w) \<and>
      Course_get_recent_students env self w =
        (Inr (Construct User (requester (heap w ! self)) GET
                (Fmt ''courses/%s/recent_students'' [i]) None []), w) \<and>
      Course_get_enrollments env self kw w =
        (Inr (Construct Enrollment (requester (heap w ! self)) GET
                (Fmt ''courses/%s/enrollments'' [i]) None (combine_kwargs env kw)), w) \<and>
      Course_get_assignments env self kw w =
        (Inr (Construct Assignment (requester (heap w ! self)) GET
                (Fmt ''courses/%s/assignments'' [i]) None (combine_kwargs env kw)), w) \<and>
      Course_list_sections env self kw w =
        (Inr (Construct Section (requester (heap w ! self)) GET
                (Fmt ''courses/%s/sections'' [i]) None (combine_kwargs env kw)), w)) \<and>
   extra_context (Construct c rq m p ctx q) = ctx \<and>
   (fst (Course_get_quizzes env self kw w) = Inr pl \<longrightarrow>
      (\<exists>i. getattr (heap w ! self) ''id'' = Inr i \<and> extra_context pl = Some [(''course_id'', i)])) \<and>
   (fst (Course_get_modules env self kw w) = Inr pl \<longrightarrow>
      (\<exists>i. getattr (heap w ! self) ''id'' = Inr i \<and> extra_context pl = Some [(''course_id'', i)])) \<and>
   (fst (Course_get_external_tools env self kw w) = Inr pl \<longrightarrow>
      (\<exists>i. getattr (heap w ! self) ''id'' = Inr i \<and> extra_context pl = Some [(''course_id'', i)])) \<and>
   (fst (Course_get_pages env self kw w) = Inr pl \<longrightarrow>
      (\<exists>i. getattr (heap w ! self) ''id'' = Inr i \<and> extra_context pl = Some [(''course_id'', i)])) \<and>
   (fst (Course_get_users env self search_term kw w) = Inr pl \<longrightarrow> extra_context pl = None) \<and>
   (fst (Course_get_recent_students env self w) = Inr pl \<longrightarrow> extra_context pl = None) \<and>
   (fst (Course_get_enrollments env self kw w) = Inr pl \<longrightarrow> extra_context pl = None) \<and>
   (fst (Course_get_assignments env self kw w) = Inr pl \<longrightarrow> extra_context pl = None) \<and>
   (fst (Course_list_sections env self kw w) = Inr pl \<longrightarrow> extra_context pl = None) \<and>
   (extra_context pl = None \<longrightarrow> fetch_page env pl r w = (Inr pl', w') \<longrightarrow>
      (\<exists>x resp items.
         issued w' = issued w @ [x] \<and> outcome x = Inr resp \<and>
         decode_page (expected_key pl) (json_body resp) = Inr items \<and>
         heap w' = heap w @ map (\<lambda>d. \<lparr>element_class = element_type pl,
                                      requester = pl_requester pl, attributes = d\<rparr>) items \<and>
         buffered_items pl' =
           buffered_items pl @ [length (heap w) ..< length (heap w) + length items]))"
proof -
  have nine: "getattr (heap w ! self) ''id'' = Inr i \<longrightarrow>
      Course_get_quizzes env self kw w =
        (Inr (Construct Quiz (requester (heap w ! self)) GET (Fmt ''courses/%s/quizzes'' [i])
                (Some [(''course_id'', i)]) (combine_kwargs env kw)), w) \<and>
      Course_get_modules env self kw w =
        (Inr (Construct Module (requester (heap w ! self)) GET (Fmt ''courses/%s/modules'' [i])
                (Some [(''course_id'', i)]) (combine_kwargs env kw)), w) \<and>
      Course_get_external_tools env self kw w =
        (Inr (Construct ExternalTool (requester (heap w ! self)) GET
                (Fmt ''courses/%s/external_tools'' [i])
                (Some [(''course_id'', i)]) (combine_kwargs env kw)), w) \<and>
      Course_get_pages env self kw w =
        (Inr (Construct Page (requester (heap w ! self)) GET (Fmt ''courses/%s/pages'' [i])
                (Some [(''course_id'', i)]) []), w) \<and>
      Course_get_users env self search_term kw w =
        (Inr (Construct User (requester (heap w ! self)) GET
                (Fmt ''courses/%s/search_users'' [i]) None (combine_kwargs env kw)), w) \<and>
      Course_get_recent_students env self w =
        (Inr (Construct User (requester (heap w ! self)) GET
                (Fmt ''courses/%s/recent_students'' [i]) None []), w) \<and>
      Course_get_enrollments env self kw w =
        (Inr (Construct Enrollment (requester (heap w ! self)) GET
                (Fmt ''courses/%s/enrollments'' [i]) None (combine_kwargs env kw)), w) \<and>
      Course_get_assignments env self kw w =
        (Inr (Construct Assignment (requester (heap w ! self)) GET
                (Fmt ''courses/%s/assignments'' [i]) None (combine_kwargs env kw)), w) \<and>
      Course_list_sections env self kw w =
        (Inr (Construct Section (requester (heap w ! self)) GET
                (Fmt ''courses/%s/sections'' [i]) None (combine_kwargs env kw)), w)"
    by (simp add: Course_get_quizzes_def Course_get_modules_def Course_get_external_tools_def
          Course_get_pages_def Course_get_users_def Course_get_recent_students_def
          Course_get_enrollments_def Course_get_assignments_def Course_list_sections_def)
  have ctx: "extra_context (Construct c rq m p ctx q) = ctx"
    by (simp add: Construct_def)
  have four: "(fst (Course_get_quizzes env self kw w) = Inr pl \<longrightarrow>
      (\<exists>i. getattr (heap w ! self) ''id'' = Inr i \<and> extra_context pl = Some [(''course_id'', i)])) \<and>
   (fst (Course_get_modules env self kw w) = Inr pl \<longrightarrow>
      (\<exists>i. getattr (heap w ! self) ''id'' = Inr i \<and> extra_context pl = Some [(''course_id'', i)])) \<and>
   (fst (Course_get_external_tools env self kw w) = Inr pl \<longrightarrow>
      (\<exists>i. getattr (heap w ! self) ''id'' = Inr i \<and> extra_context pl = Some [(''course_id'', i)])) \<and>
   (fst (Course_get_pages env self kw w) = Inr pl \<longrightarrow>
      (\<exists>i. getattr (heap w ! self) ''id'' = Inr i \<and> extra_context pl = Some [(''course_id'', i)]))"
    by (auto simp: Course_get_quizzes_def Course_get_modules_def Course_get_external_tools_def
          Course_get_pages_def Construct_def split: sum.splits)
  have five: "(fst (Course_get_users env self search_term kw w) = Inr pl \<longrightarrow> extra_context pl = None) \<and>
   (fst (Course_get_recent_students env self w) = Inr pl \<longrightarrow> extra_context pl = None) \<and>
   (fst (Course_get_enrollments env self kw w) = Inr pl \<longrightarrow> extra_context pl = None) \<and>
   (fst (Course_get_assignments env self kw w) = Inr pl \<longrightarrow> extra_context pl = None) \<and>
   (fst (Course_list_sections env self kw w) = Inr pl \<longrightarrow> extra_context pl = None)"
    by (auto simp: Course_get_users_def Course_get_recent_students_def Course_get_enrollments_def
          Course_get_assignments_def Course_list_sections_def Construct_def split: sum.splits)
  have fetch: "extra_context pl = None \<longrightarrow> fetch_page env pl r w = (Inr pl', w') \<longrightarrow>
      (\<exists>x resp items.
         issued w' = issued w @ [x] \<and> outcome x = Inr resp \<and>
         decode_page (expected_key pl) (json_body resp) = Inr items \<and>
         heap w' = heap w @ map (\<lambda>d. \<lparr>element_class = element_type pl,
                                      requester = pl_requester pl, attributes = d\<rparr>) items \<and>
         buffered_items pl' =
           buffered_items pl @ [length (heap w) ..< length (heap w) + length items])"
    using fetch_page_without_context[of pl env r w pl' w'] by blast
  show ?thesis
    apply (rule conjI[OF nine])
    apply (rule conjI[OF ctx])
    using four five fetch apply (intro conjI)
              apply (elim conjE, assumption)+
    done
qed

text \<open>
  The theorem on the course with id 7: the four methods pass \<open>course_id\<close> 7, the five
  pass nothing, and the user fetched through the sequence of \<open>get_users\<close> has the one
  field the server sent.
\<close>

theorem only_four_list_methods_pass_course_id_witness:
  "getattr (heap world0 ! 0) ''id'' = Inr (JInt 7) \<and>
   Course_get_quizzes (canned (Inr \<lparr>json_body = JList [JObj [(''id'', JInt 1)]], next_link = None\<rparr>))
       0 [] world0 =
     (Inr (Construct Quiz 0 GET (Fmt ''courses/%s/quizzes'' [JInt 7])
             (Some [(''course_id'', JInt 7)]) []), world0) \<and>
   Course_get_modules (canned (Inr \<lparr>json_body = JList [JObj [(''id'', JInt 1)]], next_link = None\<rparr>))
       0 [] world0 =
     (Inr (Construct Module 0 GET (Fmt ''courses/%s/modules'' [JInt 7])
             (Some [(''course_id'', JInt 7)]) []), world0) \<and>
   Course_get_external_tools
       (canned (Inr \<lparr>json_body = JList [JObj [(''id'', JInt 1)]], next_link = None\<rparr>))
       0 [] world0 =
     (Inr (Construct ExternalTool 0 GET (Fmt ''courses/%s/external_tools'' [JInt 7])
             (Some [(''course_id'', JInt 7)]) []), world0) \<and>
   Course_get_pages (canned (Inr \<lparr>json_body = JList [JObj [(''id'', JInt 1)]], next_link = None\<rparr>))
       0 [] world0 =
     (Inr (Construct Page 0 GET (Fmt ''courses/%s/pages'' [JInt 7])
             (Some [(''course_id'', JInt 7)]) []), world0) \<and>
   Course_get_users (canned (Inr \<lparr>json_body = JList [JObj [(''id'', JInt 1)]], next_link = None\<rparr>))
       0 JNull [] world0 =
     (Inr (Construct User 0 GET (Fmt ''courses/%s/search_users'' [JInt 7]) None []), world0) \<and>
   Course_get_recent_students
       (canned (Inr \<lparr>json_body = JList [JObj [(''id'', JInt 1)]], next_link = None\<rparr>))
       0 world0 =
     (Inr (Construct User 0 GET (Fmt ''courses/%s/recent_students'' [JInt 7]) None []), world0) \<and>
   Course_get_enrollments
       (canned (Inr \<lparr>json_body = JList [JObj [(''id'', JInt 1)]], next_link = None\<rparr>))
       0 [] world0 =
     (Inr (Construct Enrollment 0 GET (Fmt ''courses/%s/enrollments'' [JInt 7]) None []), world0) \<and>
   Course_get_assignments
       (canned (Inr \<lparr>json_body = JList [JObj [(''id'', JInt 1)]], next_link = None\<rparr>))
       0 [] world0 =
     (Inr (Construct Assignment 0 GET (Fmt ''courses/%s/assignments'' [JInt 7]) None []), world0) \<and>
   Course_list_sections
       (canned (Inr \<lparr>json_body = JList [JObj [(''id'', JInt 1)]], next_link = None\<rparr>))
       0 [] world0 =
     (Inr (Construct Section 0 GET (Fmt ''courses/%s/sections'' [JInt 7]) None []), world0) \<and>
   extra_context (Construct Page 0 GET (Fmt ''courses/%s/pages'' [JInt 7])
                    (Some [(''course_id'', JInt 7)]) []) = Some [(''course_id'', JInt 7)] \<and>
   extra_context (Construct User 0 GET (Fmt ''courses/%s/search_users'' [JInt 7]) None []) = None \<and>
   fetch_page (canned (Inr \<lparr>json_body = JList [JObj [(''id'', JInt 1)]], next_link = None\<rparr>))
     (Construct User 0 GET (Fmt ''courses/%s/search_users'' [JInt 7]) None [])
     \<lparr>verb = GET, path = Fmt ''courses/%s/search_users'' [JInt 7], params = []\<rparr> world0
     = (Inr ((Construct User 0 GET (Fmt ''courses/%s/search_users'' [JInt 7]) None [])
               \<lparr>current_request := None, buffered_items := [2]\<rparr>),
        world0\<lparr>issued := [\<lparr>sender = 0,
                   sent = \<lparr>verb = GET, path = Fmt ''courses/%s/search_users'' [JInt 7], params = []\<rparr>,
                   outcome = Inr \<lparr>json_body = JList [JObj [(''id'', JInt 1)]], next_link = None\<rparr>\<rparr>],
               heap := [course7, group3,
                        \<lparr>element_class = User, requester = 0, attributes = [(''id'', JInt 1)]\<rparr>]\<rparr>)"
proof -
  let ?E = "canned (Inr \<lparr>json_body = JList [JObj [(''id'', JInt 1)]], next_link = None\<rparr>)"
  have own: "getattr (heap world0 ! 0) ''id'' = Inr (JInt 7)"
    by (simp add: world0_def course7_def getattr_def)
  have rq: "requester (heap world0 ! 0) = 0"
    by (simp add: world0_def course7_def)
  have ck: "combine_kwargs ?E kw = kw" for kw
    by (simp add: canned_def)
  note inst = only_four_list_methods_pass_course_id
      [where env = ?E and self = 0 and w = world0 and i = "JInt 7" and kw = "[]"
         and search_term = JNull]
  note nine = inst[THEN conjunct1, rule_format, OF own, unfolded rq ck]
  note ctx = inst[THEN conjunct2, THEN conjunct1]
  have fetch: "fetch_page ?E
     (Construct User 0 GET (Fmt ''courses/%s/search_users'' [JInt 7]) None [])
     \<lparr>verb = GET, path = Fmt ''courses/%s/search_users'' [JInt 7], params = []\<rparr> world0
     = (Inr ((Construct User 0 GET (Fmt ''courses/%s/search_users'' [JInt 7]) None [])
               \<lparr>current_request := None, buffered_items := [2]\<rparr>),
        world0\<lparr>issued := [\<lparr>sender = 0,
                   sent = \<lparr>verb = GET, path = Fmt ''courses/%s/search_users'' [JInt 7], params = []\<rparr>,
                   outcome = Inr \<lparr>json_body = JList [JObj [(''id'', JInt 1)]], next_link = None\<rparr>\<rparr>],
               heap := [course7, group3,
                        \<lparr>element_class = User, requester = 0, attributes = [(''id'', JInt 1)]\<rparr>]\<rparr>)"
    by (simp add: canned_def world0_def Construct_def fetch_page_def request_def
          decode_items_def new_object_def next_request_def)
  show ?thesis
    by (intro conjI own fetch ctx
          nine[THEN conjunct1]
          nine[THEN conjunct2, THEN conjunct1]
          nine[THEN conjunct2, THEN conjunct2, THEN conjunct1]
          nine[THEN conjunct2, THEN conjunct2, THEN conjunct2, THEN conjunct1]
          nine[THEN conjunct2, THEN conjunct2, THEN conjunct2, THEN conjunct2, THEN conjunct1]
          nine[THEN conjunct2, THEN conjunct2, THEN conjunct2, THEN conjunct2, THEN conjunct2,
               THEN conjunct1]
          nine[THEN conjunct2, THEN conjunct2, THEN conjunct2, THEN conjunct2, THEN conjunct2,
               THEN conjunct2, THEN conjunct1]
          nine[THEN conjunct2, THEN conjunct2, THEN conjunct2, THEN conjunct2, THEN conjunct2,
               THEN conjunct2, THEN conjunct2, THEN conjunct1]
          nine[THEN conjunct2, THEN conjunct2, THEN conjunct2, THEN conjunct2, THEN conjunct2,
               THEN conjunct2, THEN conjunct2, THEN conjunct2])
qed

section \<open>Advancing a terminal sequence\<close>

lemma Advance_terminal: "terminal pl \<Longrightarrow> Advance env pl w = Some (Inr None, pl, w)"
  by (subst Advance.simps) (simp add: terminal_def)

text \<open>
  C6. Once a Paginated Sequence is terminal, any number of further calls of \<open>Advance()\<close>
  each return the end of the sequence, none raises, and the sequence and the world,
  with its record of exchanges, stay as they are: no further round trip is made.
\<close>

theorem advance_after_terminal_is_end_of_sequence:
  "terminal pl \<Longrightarrow> advance_times n env pl w = Some (replicate n (Inr None), pl, w)"
  by (induction n) (simp_all add: Advance_terminal)

text \<open>
  The theorem on a sequence whose last page has arrived and been drained: three more
  calls, three times the end of the sequence, and still no exchange on record.
\<close>

theorem advance_after_terminal_witness:
  "terminal ((Construct Quiz 0 GET (Url ''quizzes?page=2'') None [])\<lparr>current_request := None\<rparr>) \<and>
   advance_times 3 quiz_server
     ((Construct Quiz 0 GET (Url ''quizzes?page=2'') None [])\<lparr>current_request := None\<rparr>) world0
   = Some ([Inr None, Inr None, Inr None],
           (Construct Quiz 0 GET (Url ''quizzes?page=2'') None [])\<lparr>current_request := None\<rparr>,
           world0) \<and>
   issued world0 = []"
proof -
  have t: "terminal ((Construct Quiz 0 GET (Url ''quizzes?page=2'') None [])\<lparr>current_request := None\<rparr>)"
    by (simp add: terminal_def Construct_def)
  have three: "replicate 3 (Inr None :: exn + ref option) = [Inr None, Inr None, Inr None]"
    by (simp add: numeral_3_eq_3)
  show ?thesis
    using t advance_after_terminal_is_end_of_sequence[OF t, of 3 quiz_server world0] three
    by (simp add: world0_def)
qed

section \<open>Draining a paged collection\<close>

text \<open>
  How \<open>drain\<close> and \<open>Advance\<close> go through a buffer, a fetch and the terminal state.
\<close>

lemma Advance_buffered:
  "buffered_items pl = x # xs \<Longrightarrow>
   Advance env pl w = Some (Inr (Some x), pl\<lparr>buffered_items := xs\<rparr>, w)"
  by (subst Advance.simps) simp

lemma Advance_fetch:
  "buffered_items pl = [] \<Longrightarrow> current_request pl = Some r \<Longrightarrow>
   fetch_page env pl r w = (Inr pl', w') \<Longrightarrow> Advance env pl w = Advance env pl' w'"
  by (subst Advance.simps) simp

lemma drain_buffered:
  "buffered_items pl = xs \<Longrightarrow>
   drain env pl w acc = drain env (pl\<lparr>buffered_items := []\<rparr>) w (acc @ xs)"
proof (induction xs arbitrary: pl acc)
  case Nil
  then have "pl\<lparr>buffered_items := []\<rparr> = pl" by simp
  then show ?case by simp
next
  case (Cons x xs)
  have "drain env pl w acc = drain env (pl\<lparr>buffered_items := xs\<rparr>) w (acc @ [x])"
    by (subst drain.simps) (simp add: Advance_buffered[OF Cons.prems])
  also have "\<dots> = drain env (pl\<lparr>buffered_items := xs\<rparr>\<lparr>buffered_items := []\<rparr>) w ((acc @ [x]) @ xs)"
    by (rule Cons.IH) simp
  finally show ?case by simp
qed

lemma drain_terminal: "terminal pl \<Longrightarrow> drain env pl w acc = Some (Inr acc, pl, w)"
  by (subst drain.simps) (simp add: Advance_terminal)

lemma drain_fetch:
  assumes "buffered_items pl = []" and "current_request pl = Some r"
    and "fetch_page env pl r w = (Inr pl', w')"
  shows "drain env pl w acc = drain env pl' w' acc"
proof -
  have "drain env pl w acc =
        (case Advance env pl' w' of
           None \<Rightarrow> None
         | Some (Inl e, pl', w') \<Rightarrow> Some (Inl e, pl', w')
         | Some (Inr None, pl', w') \<Rightarrow> Some (Inr acc, pl', w')
         | Some (Inr (Some x), pl', w') \<Rightarrow> drain env pl' w' (acc @ [x]))"
    by (subst drain.simps) (simp add: Advance_fetch[OF assms])
  also have "\<dots> = drain env pl' w' acc"
    by (rule drain.simps[symmetric])
  finally show ?thesis .
qed

lemma decode_items_objects:
  "list_all (\<lambda>x. as_object x \<noteq> None) p \<Longrightarrow>
   decode_items p = Inr (map (\<lambda>x. the (as_object x)) p)"
  by (simp add: decode_items_def)

lemma fetch_page_served:
  assumes "transport env (server w) (pl_requester pl) r = (Inr resp, s')"
    and "json_body resp = JList p" and "list_all (\<lambda>x. as_object x \<noteq> None) p"
  shows "fetch_page env pl r w =
           (Inr (pl\<lparr>current_request := next_request (next_link resp),
                    buffered_items :=
                      buffered_items pl @ [length (heap w) ..< length (heap w) + length p]\<rparr>),
            w\<lparr>server := s',
              issued := issued w @ [\<lparr>sender = pl_requester pl, sent = r, outcome = Inr resp\<rparr>],
              heap := heap w @ map (hydrate pl) p\<rparr>)"
  using assms
  by (simp add: fetch_page_def request_def decode_items_objects construct_all_eq hydrate_def
        comp_def)

lemma upt_two_pages: "[n ..< n + a] @ [n + a ..< n + (a + b)] = [n ..< n + (a + (b::nat))]"
  using upt_add_eq_append[of n "n + a" b] by (simp add: add.assoc)

lemma drain_serves:
  assumes "serves env (pl_requester pl) (server w) r pages"
    and "list_all (list_all (\<lambda>x. as_object x \<noteq> None)) pages"
    and "buffered_items pl = []" and "current_request pl = Some r"
  shows "\<exists>pl' w'.
           drain env pl w acc =
             Some (Inr (acc @ [length (heap w) ..< length (heap w) + length (concat pages)]), pl', w') \<and>
           terminal pl' \<and>
           heap w' = heap w @ map (hydrate pl) (concat pages) \<and>
           length (issued w') = length (issued w) + length pages \<and>
           take (length (issued w)) (issued w') = issued w"
  using assms
proof (induction pages arbitrary: pl w r acc)
  case Nil
  then show ?case by simp
next
  case (Cons p ps)
  obtain out s' where tr: "transport env (server w) (pl_requester pl) r = (out, s')"
    by (metis surj_pair)
  with Cons.prems(1) obtain resp where out: "out = Inr resp" and body: "json_body resp = JList p"
    by (cases ps; cases out) auto
  from Cons.prems(2) have objs: "list_all (\<lambda>x. as_object x \<noteq> None) p" by simp
  let ?rs = "[length (heap w) ..< length (heap w) + length p]"
  let ?pl1 = "pl\<lparr>current_request := next_request (next_link resp), buffered_items := ?rs\<rparr>"
  let ?w1 = "w\<lparr>server := s',
               issued := issued w @ [\<lparr>sender = pl_requester pl, sent = r, outcome = Inr resp\<rparr>],
               heap := heap w @ map (hydrate pl) p\<rparr>"
  have fp: "fetch_page env pl r w = (Inr ?pl1, ?w1)"
    using fetch_page_served[OF tr[unfolded out] body objs, of ] Cons.prems(3) by simp
  let ?pl2 = "?pl1\<lparr>buffered_items := []\<rparr>"
  have step: "drain env pl w acc = drain env ?pl2 ?w1 (acc @ ?rs)"
    using drain_fetch[OF Cons.prems(3,4) fp, of acc] drain_buffered[of ?pl1 ?rs env ?w1 acc]
    by simp
  show ?case
  proof (cases ps)
    case Nil
    with Cons.prems(1) tr out have "next_link resp = None" by simp
    then have "terminal ?pl2" by (simp add: terminal_def next_request_def)
    from drain_terminal[OF this, of env ?w1 "acc @ ?rs"] step Nil \<open>terminal ?pl2\<close>
    show ?thesis by simp
  next
    case (Cons q qs)
    with Cons.prems(1) tr out obtain u where u: "next_link resp = Some u"
      and sv: "serves env (pl_requester pl) s' \<lparr>verb = GET, path = Url u, params = []\<rparr> (q # qs)"
      by (auto split: option.splits)
    have hyd: "hydrate ?pl2 = hydrate pl" by (simp add: hydrate_def fun_eq_iff)
    from Cons.prems(2) Cons have objs': "list_all (list_all (\<lambda>x. as_object x \<noteq> None)) ps"
      by simp
    have "\<exists>pl' w'.
           drain env ?pl2 ?w1 (acc @ ?rs) =
             Some (Inr ((acc @ ?rs) @ [length (heap ?w1) ..< length (heap ?w1) + length (concat ps)]), pl', w') \<and>
           terminal pl' \<and>
           heap w' = heap ?w1 @ map (hydrate ?pl2) (concat ps) \<and>
           length (issued w') = length (issued ?w1) + length ps \<and>
           take (length (issued ?w1)) (issued w') = issued ?w1"
      by (rule Cons.IH[of ?pl2 ?w1 "\<lparr>verb = GET, path = Url u, params = []\<rparr>" "acc @ ?rs"])
         (use sv Cons objs' u in \<open>simp_all add: next_request_def\<close>)
    then obtain pl' w' where d: "drain env ?pl2 ?w1 (acc @ ?rs) =
             Some (Inr ((acc @ ?rs) @ [length (heap ?w1) ..< length (heap ?w1) + length (concat ps)]), pl', w')"
      and t: "terminal pl'"
      and h: "heap w' = heap ?w1 @ map (hydrate ?pl2) (concat ps)"
      and l: "length (issued w') = length (issued ?w1) + length ps"
      and k: "take (length (issued ?w1)) (issued w') = issued ?w1"
      by blast
    have refs: "?rs @ [length (heap ?w1) ..< length (heap ?w1) + length (concat ps)]
                = [length (heap w) ..< length (heap w) + length (concat (p # ps))]"
      using upt_two_pages[of "length (heap w)" "length p" "length (concat ps)"]
      by (simp add: add.assoc)
    have pre: "take (length (issued w)) (issued w') = issued w"
    proof -
      have "take (length (issued w)) (take (length (issued ?w1)) (issued w')) = issued w"
        by (simp only: k) simp
      then show ?thesis by (simp add: min_def)
    qed
    have all_refs: "(acc @ ?rs) @ [length (heap ?w1) ..< length (heap ?w1) + length (concat ps)]
                = acc @ [length (heap w) ..< length (heap w) + length (concat (p # ps))]"
      using refs by simp
    from d step have "drain env pl w acc =
        Some (Inr (acc @ [length (heap w) ..< length (heap w) + length (concat (p # ps))]), pl', w')"
      by (simp only: all_refs)
    with t h l pre hyd show ?thesis
      by (intro exI[of _ pl'] exI[of _ w']) simp
  qed
qed


lemma nth_new_objects:
  "map (\<lambda>i. (ys @ xs) ! i) [length ys ..< length ys + length xs] = xs"
  by (rule nth_equalityI) (simp_all add: nth_append)

text \<open>
  C5. If the server holds a collection of JSON objects as the pages \<open>p1, ..., pN\<close> for
  the pending request of a sequence with an empty buffer, then draining the sequence
  returns, with no error, exactly \<open>p1 + ... + pN\<close> new objects: they are the items of the
  pages in page order and, within a page, in the order of the page, each hydrated with
  the sequence's element type, requester and extra context. Exactly \<open>N\<close> exchanges are
  added to the record, and the sequence ends terminal.
\<close>

theorem draining_yields_every_page_in_order:
  assumes "serves env (pl_requester pl) (server w) r pages"
    and "list_all (list_all (\<lambda>x. as_object x \<noteq> None)) pages"
    and "buffered_items pl = []" and "current_request pl = Some r"
  shows "\<exists>refs pl' w'.
           ToFiniteCollection env pl w = Some (Inr refs, pl', w') \<and>
           refs = [length (heap w) ..< length (heap w) + sum_list (map length pages)] \<and>
           length refs = sum_list (map length pages) \<and>
           map (\<lambda>i. heap w' ! i) refs = map (hydrate pl) (concat pages) \<and>
           length (issued w') = length (issued w) + length pages \<and>
           take (length (issued w)) (issued w') = issued w \<and>
           terminal pl'"
proof -
  from drain_serves[OF assms, of "[]"] obtain pl' w' where
    d: "drain env pl w [] =
          Some (Inr [length (heap w) ..< length (heap w) + length (concat pages)], pl', w')"
    and t: "terminal pl'"
    and h: "heap w' = heap w @ map (hydrate pl) (concat pages)"
    and l: "length (issued w') = length (issued w) + length pages"
    and k: "take (length (issued w)) (issued w') = issued w"
    by auto
  have n: "length (concat pages) = sum_list (map length pages)"
    by (simp add: length_concat)
  have m: "map (\<lambda>i. heap w' ! i) [length (heap w) ..< length (heap w) + length (concat pages)]
           = map (hydrate pl) (concat pages)"
    using nth_new_objects[of "heap w" "map (hydrate pl) (concat pages)"] h by simp
  from d t l k n m show ?thesis
    by (simp add: ToFiniteCollection_def)
qed

text \<open>
  The theorem on the quizzes of course 7, served on two pages of sizes 2 and 1: three
  quizzes in the order served, each with \<open>course_id\<close> 7 (also the one that came with 99),
  after two round trips.
\<close>

theorem draining_quiz_pages_witness:
  "serves quiz_server 0 (server world0)
     \<lparr>verb = GET, path = Fmt ''courses/%s/quizzes'' [JInt 7], params = []\<rparr> quiz_pages \<and>
   list_all (list_all (\<lambda>x. as_object x \<noteq> None)) quiz_pages \<and>
   map length quiz_pages = [2, 1] \<and>
   (\<exists>pl' w'.
      ToFiniteCollection quiz_server
        (Construct Quiz 0 GET (Fmt ''courses/%s/quizzes'' [JInt 7]) (Some [(''course_id'', JInt 7)]) [])
        world0 = Some (Inr [2, 3, 4], pl', w') \<and>
      map (\<lambda>i. attributes (heap w' ! i)) [2, 3, 4] =
        [[(''id'', JInt 10), (''course_id'', JInt 7)],
         [(''id'', JInt 11), (''course_id'', JInt 7)],
         [(''id'', JInt 12), (''course_id'', JInt 7)]] \<and>
      length (issued w') = 2 \<and> terminal pl')"
proof -
  let ?r = "\<lparr>verb = GET, path = Fmt ''courses/%s/quizzes'' [JInt 7], params = []\<rparr>"
  let ?pl = "Construct Quiz 0 GET (Fmt ''courses/%s/quizzes'' [JInt 7]) (Some [(''course_id'', JInt 7)]) []"
  have sv: "serves quiz_server 0 (server world0) ?r quiz_pages"
    by (simp add: quiz_server_def quiz_pages_def)
  then have sv': "serves quiz_server (pl_requester ?pl) (server world0) ?r quiz_pages"
    by (simp add: Construct_def)
  have ob: "list_all (list_all (\<lambda>x. as_object x \<noteq> None)) quiz_pages"
    by (simp add: quiz_pages_def)
  have ln: "map length quiz_pages = [2, 1]"
    by (simp add: quiz_pages_def)
  have b: "buffered_items ?pl = []" and c: "current_request ?pl = Some ?r"
    by (simp_all add: Construct_def)
  from draining_yields_every_page_in_order[OF sv' ob b c] obtain refs pl' w' where
    d: "ToFiniteCollection quiz_server ?pl world0 = Some (Inr refs, pl', w')"
    and refs: "refs = [length (heap world0) ..< length (heap world0) + sum_list (map length quiz_pages)]"
    and m: "map (\<lambda>i. heap w' ! i) refs = map (hydrate ?pl) (concat quiz_pages)"
    and l: "length (issued w') = length (issued world0) + length quiz_pages"
    and t: "terminal pl'"
    by blast
  have "[length (heap world0) ..< length (heap world0) + sum_list (map length quiz_pages)]
          = [2, 3, 4]"
    by (simp add: world0_def quiz_pages_def upt_rec)
  with refs have r: "refs = [2, 3, 4]"
    by simp
  have "map attributes (map (\<lambda>i. heap w' ! i) refs) = map attributes (map (hydrate ?pl) (concat quiz_pages))"
    by (simp only: m)
  with r have a: "map (\<lambda>i. attributes (heap w' ! i)) [2, 3, 4] =
        [[(''id'', JInt 10), (''course_id'', JInt 7)],
         [(''id'', JInt 11), (''course_id'', JInt 7)],
         [(''id'', JInt 12), (''course_id'', JInt 7)]]"
    by (simp add: quiz_pages_def hydrate_def Construct_def AList.merge_def)
  from l have l': "length (issued w') = 2"
    by (simp add: world0_def quiz_pages_def)
  from d r have d': "ToFiniteCollection quiz_server ?pl world0 = Some (Inr [2, 3, 4], pl', w')"
    by simp
  show ?thesis
    by (intro conjI exI[of _ pl'] exI[of _ w']) (fact sv ob ln d' a l' t)+
qed

end
